theory Spec2Isabelle
  imports Main "HOL-Library.AList"
begin

section \<open>Data model of the network interface monitor\<close>

text \<open>
  The monitor is the JavaScript class \<open>NetworkInterfaceMonitor\<close>. Its collaborators
  are outside the class: \<open>os.networkInterfaces()\<close> (a snapshot of the addresses bound to
  every interface), the two native calls \<open>NotifyIpInterfaceChange\<close> and
  \<open>CancelMibChangeNotify2\<close>, the timer functions \<open>setTimeout\<close> and
  \<open>clearTimeout\<close>, and the client's callback. Every method of the model takes what the
  collaborators answer as arguments and returns, next to the new state of the object, the
  list of the calls it made to them, in order.
\<close>

text \<open>The constant object \<open>EventType\<close> and the numbers it gives to its members.\<close>

datatype event_type = Initial | IPChanged | IPAssigned | IPRemoved

fun EventType :: "event_type \<Rightarrow> int" where
  "EventType Initial = 0"
| "EventType IPChanged = 1"
| "EventType IPAssigned = 2"
| "EventType IPRemoved = 3"

text \<open>
  Reading \<open>object[name]\<close> with a name the caller chose (the interface name and the
  address family are strings given to the constructor). The objects read this way are
  plain objects, so a name that is not an own property is looked up in
  \<open>Object.prototype\<close>: the twelve names below give a function (for \<open>__proto__\<close>, the
  prototype object itself), every other name gives \<open>undefined\<close>. An inherited value is
  truthy, it is not a number, and it is not iterable.
\<close>

definition Object_prototype :: "string list" where
  "Object_prototype =
     [''constructor'', ''__defineGetter__'', ''__defineSetter__'', ''hasOwnProperty'',
      ''__lookupGetter__'', ''__lookupSetter__'', ''isPrototypeOf'', ''propertyIsEnumerable'',
      ''toString'', ''valueOf'', ''__proto__'', ''toLocaleString'']"

datatype 'a property = Own 'a | Inherited | Undefined

definition property :: "(string \<Rightarrow> 'a option) \<Rightarrow> string \<Rightarrow> 'a property" where
  "property own name =
     (case own name of
        Some v \<Rightarrow> Own v
      | None \<Rightarrow> if name \<in> set Object_prototype then Inherited else Undefined)"

text \<open>The exception of a \<open>for ... of\<close> loop over a value that is not iterable.\<close>

datatype error = TypeError

text \<open>\<open>AddressFamilyApiValue[name]\<close>.\<close>

definition AddressFamilyApiValue :: "string \<Rightarrow> int property" where
  "AddressFamilyApiValue name =
     property (map_of [(''Any'', 0), (''IPv4'', 2), (''IPv6'', 23)]) name"

definition DefaultCheckTimerInterval :: int where
  "DefaultCheckTimerInterval = 500"

definition DefaultCheckTimerMaxTries :: int where
  "DefaultCheckTimerMaxTries = 20"

text \<open>
  One entry of the array \<open>os.networkInterfaces()[name]\<close>: only the two properties the
  monitor reads. A snapshot gives the own properties of the object
  \<open>os.networkInterfaces()\<close> returns: it maps the name of an interface of the host to
  the array of its addresses, and every other name to nothing.
\<close>

record interface_address =
  address :: string
  family :: string

type_synonym network_interfaces = "string \<Rightarrow> interface_address list option"

text \<open>
  The objects \<open>result\<close> and \<open>hasLinkLocalAddress\<close> of \<open>getIP\<close> are association lists:
  the keys are the own properties in the order of their creation, which is the order a
  \<open>for ... in\<close> loop visits them; assigning to a property that exists keeps its place.
  The keys of \<open>result\<close> are the family names of the entries, which the host reports as
  \<open>IPv4\<close> and \<open>IPv6\<close> (a key that is an array index would be visited first by a loop;
  nothing below depends on the order of the keys). \<open>detectIPChange\<close> reads the two
  address sets at keys of the new set only, where \<open>map_of\<close> is the value of the property,
  with \<open>None\<close> for a key the set does not have.
\<close>

type_synonym address_set = "(string \<times> string) list"

type_synonym link_local_flags = "(string \<times> bool) list"

text \<open>The object \<open>setTimeout\<close> returns, with the delay it was armed with.\<close>

datatype timeout = Timeout int

text \<open>
  \<open>monitorData\<close>; \<open>handle\<close> is \<open>null\<close> or the buffer allocated by \<open>ref.alloc\<close>, given
  here by the pointer value it holds once the native call has returned.
\<close>

record monitor_data =
  networkInterface :: string
  addressFamily :: string
  handle :: "nat option"

text \<open>
  The fields of a monitor. \<open>clientCallback\<close> says whether a callback is registered
  (the field holds a function or \<open>null\<close>); the callback itself belongs to the client.
\<close>

record monitor =
  monitorData :: monitor_data
  currentAddress :: "address_set option"
  checkTimer :: "timeout option"
  checkTimerCounter :: int
  checkTimerInterval :: int
  checkTimerMaxTries :: int
  clientCallback :: bool

text \<open>The calls a method makes to the world outside the object.\<close>

datatype effect =
    ClientCallback "address_set option" event_type
  | NotifyIpInterfaceChange "int property"
  | CancelMibChangeNotify2 nat
  | SetTimeout int
  | ClearTimeout

text \<open>\<open>new NetworkInterfaceMonitor(networkInterface, addressFamily, callback)\<close>.\<close>

definition NetworkInterfaceMonitor :: "string \<Rightarrow> string \<Rightarrow> bool \<Rightarrow> monitor" where
  "NetworkInterfaceMonitor name fam callback =
     \<lparr> monitorData = \<lparr> networkInterface = name, addressFamily = fam, handle = None \<rparr>,
       currentAddress = None,
       checkTimer = None,
       checkTimerCounter = 0,
       checkTimerInterval = DefaultCheckTimerInterval,
       checkTimerMaxTries = DefaultCheckTimerMaxTries,
       clientCallback = callback \<rparr>"

section \<open>Resolving the addresses of the interface\<close>

text \<open>\<open>String.prototype.startsWith\<close>.\<close>

definition startsWith :: "string \<Rightarrow> string \<Rightarrow> bool" where
  "startsWith s p = (take (length p) s = p)"

text \<open>
  \<open>isLinkLocalAddress(address, addressFamily)\<close>. The source returns
  \<open>address && address.startsWith(...)\<close>, which is the empty string, hence falsy, for
  an empty address.
\<close>

definition isLinkLocalAddress :: "string \<Rightarrow> string \<Rightarrow> bool" where
  "isLinkLocalAddress addr addrFamily =
     (if addrFamily = ''IPv4'' then
        addr \<noteq> [] \<and> startsWith addr ''169.254''
      else if addrFamily = ''IPv6'' then
        addr \<noteq> [] \<and> (startsWith addr ''fe8'' \<or> startsWith addr ''fe9''
                     \<or> startsWith addr ''fea'' \<or> startsWith addr ''feb'')
      else False)"

text \<open>
  The assignment \<open>object[key] = value\<close> of a string or a boolean to a plain object. It
  sets the own property \<open>key\<close>, but for the key \<open>__proto__\<close>: that one is the setter
  of \<open>Object.prototype\<close>, which ignores a value that is not an object.
\<close>

definition assign :: "string \<Rightarrow> 'a \<Rightarrow> (string \<times> 'a) list \<Rightarrow> (string \<times> 'a) list" where
  "assign key v object = (if key = ''__proto__'' then object else AList.update key v object)"

text \<open>The body of the loop of \<open>getIP\<close> over the addresses of the interface.\<close>

definition getIP_step ::
  "string \<Rightarrow> bool \<Rightarrow> interface_address \<Rightarrow> address_set \<times> link_local_flags
     \<Rightarrow> address_set \<times> link_local_flags" where
  "getIP_step fam allowLinkLocalAddress ip acc =
     (case acc of (result, hasLinkLocalAddress) \<Rightarrow>
        if fam = family ip \<or> fam = ''Any'' then
          if \<not> isLinkLocalAddress (address ip) (family ip) then
            (assign (family ip) (address ip) result, hasLinkLocalAddress)
          else
            (if allowLinkLocalAddress then assign (family ip) (address ip) result
             else result,
             assign (family ip) True hasLinkLocalAddress)
        else (result, hasLinkLocalAddress))"

fun getIP_loop ::
  "string \<Rightarrow> bool \<Rightarrow> interface_address list \<Rightarrow> address_set \<times> link_local_flags
     \<Rightarrow> address_set \<times> link_local_flags" where
  "getIP_loop fam allowLinkLocalAddress [] acc = acc"
| "getIP_loop fam allowLinkLocalAddress (ip # ips) acc =
     getIP_loop fam allowLinkLocalAddress ips (getIP_step fam allowLinkLocalAddress ip acc)"

text \<open>
  \<open>getIP(allowLinkLocalAddress)\<close>, on the snapshot \<open>os.networkInterfaces()\<close> returned.
  The guard \<open>networkInterfaces[name]\<close> is false for \<open>undefined\<close> only: an array passes
  it and is looped over; a value inherited from \<open>Object.prototype\<close> passes it too, and
  the loop \<open>for (const ip of ...)\<close> over it throws a \<open>TypeError\<close>. On return the pair is
  the object \<open>{ address, hasLinkLocalAddress }\<close>; \<open>address\<close> is \<open>null\<close> when \<open>result\<close>
  has no key.
\<close>

definition getIP ::
  "network_interfaces \<Rightarrow> monitor \<Rightarrow> bool
     \<Rightarrow> error + (address_set option \<times> link_local_flags)" where
  "getIP networkInterfaces m allowLinkLocalAddress =
     (case property networkInterfaces (networkInterface (monitorData m)) of
        Inherited \<Rightarrow> Inl TypeError
      | Undefined \<Rightarrow> Inr (None, [(''IPv4'', False), (''IPv6'', False)])
      | Own ips \<Rightarrow>
          (case getIP_loop (addressFamily (monitorData m)) allowLinkLocalAddress ips
                  ([], [(''IPv4'', False), (''IPv6'', False)])
           of (result, hasLinkLocalAddress) \<Rightarrow>
             Inr (if length (map fst result) > 0 then Some result else None,
                  hasLinkLocalAddress)))"

section \<open>Detecting a change\<close>

text \<open>
  The loop \<open>for (const family in address)\<close> of \<open>detectIPChange\<close>, over the keys of the
  new address set: a key whose value differs from the stored one sets the event to
  \<open>IPChanged\<close>. The new set has a string at each of its keys; a key the stored set does
  not have reads there as \<open>undefined\<close> (or as an inherited value), which differs from
  every string.
\<close>

fun family_loop ::
  "address_set \<Rightarrow> address_set \<Rightarrow> string list \<Rightarrow> event_type \<Rightarrow> event_type" where
  "family_loop cur new [] eventType = eventType"
| "family_loop cur new (fam # fams) eventType =
     family_loop cur new fams
       (if map_of cur fam \<noteq> map_of new fam then IPChanged else eventType)"

text \<open>
  \<open>hasLinkLocalAddress[family]\<close> read as a condition, for the family given to the
  constructor: the value of the own property, true for an inherited value, false for
  \<open>undefined\<close> (which is what the family \<open>Any\<close> reads).
\<close>

definition flag_set :: "link_local_flags \<Rightarrow> string \<Rightarrow> bool" where
  "flag_set hasLinkLocalAddress fam =
     (case property (map_of hasLinkLocalAddress) fam of
        Own b \<Rightarrow> b | Inherited \<Rightarrow> True | Undefined \<Rightarrow> False)"

text \<open>
  A method gives three things: how it ended (\<open>Inr\<close> with the value it returned, or
  \<open>Inl\<close> with the exception it threw), the monitor as it left it, and the calls it made.

  \<open>detectIPChange()\<close>. An exception of \<open>getIP\<close>, its first statement, leaves the
  monitor as it was. The three components of the inner result are the event type, the
  monitor after the timer was cancelled or armed, and the calls made so far.
\<close>

definition detectIPChange ::
  "network_interfaces \<Rightarrow> monitor \<Rightarrow> (error + unit) \<times> monitor \<times> effect list" where
  "detectIPChange networkInterfaces m =
     (case getIP networkInterfaces m False of
        Inl e \<Rightarrow> (Inl e, m, [])
      | Inr (addr, hasLinkLocalAddress) \<Rightarrow>
       (case
          (case addr of
             Some new \<Rightarrow>
               (let eventType =
                      (case currentAddress m of
                         None \<Rightarrow> IPAssigned
                       | Some cur \<Rightarrow> family_loop cur new (map fst new) Initial)
                in if checkTimer m \<noteq> None then
                     (eventType, m\<lparr>checkTimer := None, checkTimerCounter := 0\<rparr>, [ClearTimeout])
                   else (eventType, m, []))
           | None \<Rightarrow>
               if currentAddress m \<noteq> None then (IPRemoved, m, [])
               else if flag_set hasLinkLocalAddress (addressFamily (monitorData m))
                       \<and> checkTimer m = None then
                 (Initial, m\<lparr>checkTimer := Some (Timeout (checkTimerInterval m))\<rparr>,
                  [SetTimeout (checkTimerInterval m)])
               else (Initial, m, []))
        of (eventType, m1, effects) \<Rightarrow>
          (let m2 = m1\<lparr>currentAddress := addr\<rparr>
           in if eventType \<noteq> Initial \<and> clientCallback m2 then
                (Inr (), m2, effects @ [ClientCallback (currentAddress m2) eventType])
              else (Inr (), m2, effects))))"

text \<open>\<open>onNotifyIpInterfaceChange\<close> ignores its arguments.\<close>

definition onNotifyIpInterfaceChange ::
  "network_interfaces \<Rightarrow> monitor \<Rightarrow> (error + unit) \<times> monitor \<times> effect list" where
  "onNotifyIpInterfaceChange networkInterfaces m = detectIPChange networkInterfaces m"

text \<open>
  \<open>onCheckTimer()\<close>: the test \<open>this.checkTimerCounter++ < this.checkTimerMaxTries\<close>
  compares the value the counter had before the increment. An exception of
  \<open>detectIPChange\<close> comes after the timer field was cleared and the counter incremented.
\<close>

definition onCheckTimer ::
  "network_interfaces \<Rightarrow> monitor \<Rightarrow> (error + unit) \<times> monitor \<times> effect list" where
  "onCheckTimer networkInterfaces m =
     (let m1 = m\<lparr>checkTimer := None\<rparr>;
          old = checkTimerCounter m1;
          m2 = m1\<lparr>checkTimerCounter := old + 1\<rparr>
      in if old < checkTimerMaxTries m2 then detectIPChange networkInterfaces m2
         else (Inr (), m2\<lparr>checkTimerCounter := 0\<rparr>, []))"

section \<open>Starting and stopping\<close>

text \<open>
  \<open>start()\<close>. The pair \<open>notify\<close> is what \<open>NotifyIpInterfaceChange\<close> answers: its return
  value and the pointer it leaves in the buffer \<open>monitorData.handle\<close>. The buffer is
  stored in \<open>monitorData.handle\<close> before the call is made. The call records the value
  \<open>AddressFamilyApiValue[addressFamily]\<close> it is given; how the binding passes that
  value on is part of the answer. An exception of \<open>getIP\<close> leaves the monitor as it
  was.
\<close>

definition start ::
  "network_interfaces \<Rightarrow> int \<times> nat \<Rightarrow> monitor
     \<Rightarrow> (error + bool) \<times> monitor \<times> effect list" where
  "start networkInterfaces notify m =
     (if handle (monitorData m) \<noteq> None then (Inr True, m, [])
      else
        (case getIP networkInterfaces m True of
           Inl e \<Rightarrow> (Inl e, m, [])
         | Inr (addr, hasLinkLocalAddress) \<Rightarrow>
          (let m1 = m\<lparr>currentAddress := addr\<rparr>;
               called = (if clientCallback m1 then [ClientCallback (currentAddress m1) Initial]
                         else []);
               m2 = m1\<lparr>monitorData := (monitorData m1)\<lparr>handle := Some (snd notify)\<rparr>\<rparr>
           in (Inr (fst notify = 0), m2,
               called @ [NotifyIpInterfaceChange
                           (AddressFamilyApiValue (addressFamily (monitorData m2)))]))))"

text \<open>
  The static method \<open>cancelNotification(monitorData)\<close>; \<open>cancelled\<close> is the return value
  of \<open>CancelMibChangeNotify2\<close>, which is called only when the handle is not \<open>null\<close>.
\<close>

definition cancelNotification ::
  "int \<Rightarrow> monitor_data \<Rightarrow> bool \<times> monitor_data \<times> effect list" where
  "cancelNotification cancelled md =
     (case handle md of
        None \<Rightarrow> (True, md, [])
      | Some p \<Rightarrow>
          (let md1 = (if cancelled = 0 then md\<lparr>handle := None\<rparr> else md)
           in (handle md1 = None, md1, [CancelMibChangeNotify2 p])))"

text \<open>\<open>stop()\<close>.\<close>

definition stop :: "int \<Rightarrow> monitor \<Rightarrow> bool \<times> monitor \<times> effect list" where
  "stop cancelled m =
     (let m1 = m\<lparr>clientCallback := False\<rparr>
      in case cancelNotification cancelled (monitorData m1) of (stopped, md, effects) \<Rightarrow>
           (stopped, m1\<lparr>monitorData := md\<rparr>, effects))"

text \<open>The two setters of the class.\<close>

definition ipCheckTimerInterval :: "int \<Rightarrow> monitor \<Rightarrow> monitor" where
  "ipCheckTimerInterval interval m = m\<lparr>checkTimerInterval := interval\<rparr>"

definition ipCheckTimerMaxTries :: "int \<Rightarrow> monitor \<Rightarrow> monitor" where
  "ipCheckTimerMaxTries maxTries m = m\<lparr>checkTimerMaxTries := maxTries\<rparr>"

section \<open>The event loop\<close>

text \<open>
  What can happen to a monitor: the client calls \<open>start()\<close> or \<open>stop()\<close>, the native
  layer delivers a notification, or the pending timeout expires. The field \<open>checkTimer\<close>
  is not \<open>null\<close> exactly while a timeout is pending (it is set by \<open>setTimeout\<close> and
  cleared both by \<open>clearTimeout\<close> and first thing in \<open>onCheckTimer\<close>), so a timeout
  can expire only in such a state. A run goes on after a method has thrown, with the
  monitor as the method left it; a process that ends at the exception has seen a prefix
  of such a run.
\<close>

datatype trigger =
    CallStart network_interfaces "int \<times> nat"
  | CallStop int
  | Notification network_interfaces
  | TimerExpired network_interfaces

fun trigger_step :: "trigger \<Rightarrow> monitor \<Rightarrow> monitor \<times> effect list" where
  "trigger_step (CallStart networkInterfaces notify) m = snd (start networkInterfaces notify m)"
| "trigger_step (CallStop cancelled) m = snd (stop cancelled m)"
| "trigger_step (Notification networkInterfaces) m =
     snd (onNotifyIpInterfaceChange networkInterfaces m)"
| "trigger_step (TimerExpired networkInterfaces) m =
     (case checkTimer m of
        None \<Rightarrow> (m, [])
      | Some t \<Rightarrow> snd (onCheckTimer networkInterfaces m))"

fun run :: "trigger list \<Rightarrow> monitor \<Rightarrow> monitor \<times> effect list" where
  "run [] m = (m, [])"
| "run (t # ts) m =
     (case trigger_step t m of (m1, effects1) \<Rightarrow>
        (case run ts m1 of (m2, effects2) \<Rightarrow> (m2, effects1 @ effects2)))"

text \<open>
  The timeouts alone: \<open>fire_timers fuel snapshots m\<close> lets the pending timeout expire, then
  the one armed by that expiry, and so on until none is pending or \<open>fuel\<close> expiries have
  happened; \<open>snapshots i\<close> is what \<open>os.networkInterfaces()\<close> answers at the expiry
  number \<open>i\<close>. The result counts the expiries and lists the exceptions thrown by them.
\<close>

fun fire_timers ::
  "nat \<Rightarrow> (nat \<Rightarrow> network_interfaces) \<Rightarrow> monitor
     \<Rightarrow> nat \<times> error list \<times> monitor \<times> effect list" where
  "fire_timers 0 snapshots m = (0, [], m, [])"
| "fire_timers (Suc fuel) snapshots m =
     (case checkTimer m of
        None \<Rightarrow> (0, [], m, [])
      | Some t \<Rightarrow>
          (case onCheckTimer (snapshots 0) m of (ended, m1, effects1) \<Rightarrow>
             (case fire_timers fuel (\<lambda>i. snapshots (Suc i)) m1 of
                (fired, errors, m2, effects2) \<Rightarrow>
                  (Suc fired,
                   (case ended of Inl e \<Rightarrow> [e] | Inr u \<Rightarrow> []) @ errors,
                   m2, effects1 @ effects2))))"

section \<open>Notions the properties are stated with\<close>

text \<open>The calls of the client callback among the calls made, in order.\<close>

fun callbacks :: "effect list \<Rightarrow> (address_set option \<times> event_type) list" where
  "callbacks [] = []"
| "callbacks (ClientCallback addr eventType # effects) = (addr, eventType) # callbacks effects"
| "callbacks (e # effects) = callbacks effects"

text \<open>The number of native subscriptions requested.\<close>

fun subscriptions :: "effect list \<Rightarrow> nat" where
  "subscriptions [] = 0"
| "subscriptions (NotifyIpInterfaceChange fam # effects) = Suc (subscriptions effects)"
| "subscriptions (e # effects) = subscriptions effects"

text \<open>The array of the monitored interface, empty when the host has no such interface.\<close>

definition interface_addresses :: "network_interfaces \<Rightarrow> monitor \<Rightarrow> interface_address list" where
  "interface_addresses networkInterfaces m =
     (case networkInterfaces (networkInterface (monitorData m)) of
        None \<Rightarrow> [] | Some ips \<Rightarrow> ips)"

text \<open>
  The interface name of the monitor is one the snapshot inherits from
  \<open>Object.prototype\<close>: no interface of the host has it, and it is one of the twelve.
\<close>

definition inherited_name :: "network_interfaces \<Rightarrow> monitor \<Rightarrow> bool" where
  "inherited_name networkInterfaces m =
     (property networkInterfaces (networkInterface (monitorData m)) = Inherited)"

text \<open>The entries of an address set, none for \<open>null\<close>.\<close>

definition address_entries :: "address_set option \<Rightarrow> address_set" where
  "address_entries addr = (case addr of None \<Rightarrow> [] | Some result \<Rightarrow> result)"

text \<open>The family filter of the monitor.\<close>

definition family_matches :: "string \<Rightarrow> interface_address \<Rightarrow> bool" where
  "family_matches fam ip = (fam = family ip \<or> fam = ''Any'')"

text \<open>
  An address is included in a resolution when its family passes the filter (and is a
  key that can be assigned), and \<open>isLinkLocalAddress\<close> does not classify it link-local
  or link-local addresses are allowed. The last included address of a family is the last
  one in the order of the array.
\<close>

definition included :: "string \<Rightarrow> bool \<Rightarrow> interface_address \<Rightarrow> bool" where
  "included fam allow ip =
     (family_matches fam ip \<and> family ip \<noteq> ''__proto__''
      \<and> (allow \<or> \<not> isLinkLocalAddress (address ip) (family ip)))"

definition last_included ::
  "string \<Rightarrow> bool \<Rightarrow> interface_address list \<Rightarrow> string \<Rightarrow> string option" where
  "last_included fam allow ips f =
     (case filter (\<lambda>ip. included fam allow ip \<and> family ip = f) ips of
        [] \<Rightarrow> None
      | x # xs \<Rightarrow> Some (address (last (x # xs))))"

text \<open>
  No entry of an address set is one that \<open>isLinkLocalAddress\<close>, the test of the code by
  the first characters of the text, classifies link-local.
\<close>

definition none_classified_link_local :: "address_set \<Rightarrow> bool" where
  "none_classified_link_local result = (filter (\<lambda>(f, a). isLinkLocalAddress a f) result = [])"


text \<open>
  The text in which the host reports an address. An IPv4 address is four decimal numbers
  joined by dots; an address of \<open>169.254.0.0/16\<close> has the first two numbers 169 and 254.
  An IPv6 address whose first group of 16 bits is not zero starts with that group in
  lower-case hexadecimal, without leading zeros, and a colon; an address of \<open>fe80::/10\<close>
  has the ten high bits of the first group equal to those of \<open>fe80\<close>, that is, the group
  divided by 64 is 1018.
\<close>

definition digit_char :: "nat \<Rightarrow> char" where
  "digit_char d = ''0123456789abcdef'' ! d"

fun decimal :: "nat \<Rightarrow> string" where
  "decimal n = (if n < 10 then [digit_char n] else decimal (n div 10) @ [digit_char (n mod 10)])"

fun hexadecimal :: "nat \<Rightarrow> string" where
  "hexadecimal n =
     (if n < 16 then [digit_char n] else hexadecimal (n div 16) @ [digit_char (n mod 16)])"

definition ipv4_text :: "nat \<Rightarrow> nat \<Rightarrow> nat \<Rightarrow> nat \<Rightarrow> string" where
  "ipv4_text a b c d = decimal a @ ''.'' @ decimal b @ ''.'' @ decimal c @ ''.'' @ decimal d"

definition ipv6_text :: "nat \<Rightarrow> string \<Rightarrow> string" where
  "ipv6_text h rest = hexadecimal h @ '':'' @ rest"

definition in_fe80_10 :: "nat \<Rightarrow> bool" where
  "in_fe80_10 h = (h < 65536 \<and> h div 64 = 1018)"

text \<open>
  An entry of the array of an interface is a link-local address: an IPv4 address of
  \<open>169.254.0.0/16\<close>, with the last two numbers \<open>c\<close> and \<open>d\<close>, or an IPv6 address of
  \<open>fe80::/10\<close>, with the first group \<open>h\<close> and the text \<open>rest\<close> after its colon.
\<close>

definition link_local_entry ::
  "interface_address \<Rightarrow> nat \<Rightarrow> nat \<Rightarrow> nat \<Rightarrow> string \<Rightarrow> bool" where
  "link_local_entry ip c d h rest =
     (family ip = ''IPv4'' \<and> address ip = ipv4_text 169 254 c d
      \<or> family ip = ''IPv6'' \<and> in_fe80_10 h \<and> address ip = ipv6_text h rest)"

text \<open>Concrete monitors and snapshots, for the examples.\<close>

definition ethernet :: "interface_address list \<Rightarrow> network_interfaces" where
  "ethernet ips = (\<lambda>name. if name = ''Ethernet'' then Some ips else None)"

definition ip4 :: "string \<Rightarrow> interface_address" where
  "ip4 a = \<lparr> address = a, family = ''IPv4'' \<rparr>"

definition ip6 :: "string \<Rightarrow> interface_address" where
  "ip6 a = \<lparr> address = a, family = ''IPv6'' \<rparr>"

definition ipv4_monitor :: monitor where
  "ipv4_monitor = NetworkInterfaceMonitor ''Ethernet'' ''IPv4'' True"

definition any_monitor :: monitor where
  "any_monitor = NetworkInterfaceMonitor ''Ethernet'' ''Any'' True"

definition with_address :: "address_set \<Rightarrow> monitor \<Rightarrow> monitor" where
  "with_address a m = m\<lparr>currentAddress := Some a\<rparr>"

section \<open>Properties of the resolution\<close>

declare decimal.simps [simp del]
declare hexadecimal.simps [simp del]

subsection \<open>The loop of \<open>getIP\<close>\<close>

lemma set_update_subset: "set (AList.update k v al) \<subseteq> insert (k, v) (set al)"
  by (induct al) auto

lemma set_assign_subset: "set (assign k v al) \<subseteq> insert (k, v) (set al)"
  using set_update_subset [of k v al] by (auto simp: assign_def)

lemma map_of_assign:
  "map_of (assign k v al) =
     (if k = ''__proto__'' then map_of al else (map_of al)(k \<mapsto> v))"
  by (simp add: assign_def AList.update_conv')

lemma distinct_assign: "distinct (map fst al) \<Longrightarrow> distinct (map fst (assign k v al))"
  by (simp add: assign_def AList.distinct_update)

lemma getIP_step_alt:
  "getIP_step fam allow ip (r, h) =
     (if family_matches fam ip then
        if \<not> isLinkLocalAddress (address ip) (family ip) then
          (assign (family ip) (address ip) r, h)
        else (if allow then assign (family ip) (address ip) r else r,
              assign (family ip) True h)
      else (r, h))"
  by (simp only: getIP_step_def family_matches_def prod.case)

lemma last_included_Cons:
  "last_included fam allow (ip # ips) f =
     (case last_included fam allow ips f of
        Some a \<Rightarrow> Some a
      | None \<Rightarrow> if included fam allow ip \<and> family ip = f then Some (address ip) else None)"
  by (simp add: last_included_def split: list.splits)

lemma getIP_step_result:
  "map_of (fst (getIP_step fam allow ip (r, h))) f =
     (if included fam allow ip \<and> family ip = f then Some (address ip) else map_of r f)"
  by (auto simp: getIP_step_alt included_def map_of_assign)

lemma getIP_loop_result:
  "map_of (fst (getIP_loop fam allow ips (r, h))) f =
     (case last_included fam allow ips f of None \<Rightarrow> map_of r f | Some a \<Rightarrow> Some a)"
proof (induction ips arbitrary: r h)
  case Nil
  show ?case by (simp add: last_included_def)
next
  case (Cons ip ips)
  obtain r' h' where st: "getIP_step fam allow ip (r, h) = (r', h')"
    by (cases "getIP_step fam allow ip (r, h)")
  have "map_of r' f =
          (if included fam allow ip \<and> family ip = f then Some (address ip) else map_of r f)"
    using getIP_step_result [of fam allow ip r h f] st by simp
  then show ?case
    using Cons.IH [of r' h'] st
    by (simp add: last_included_Cons split: option.splits)
qed

lemma getIP_step_distinct:
  "distinct (map fst r) \<Longrightarrow> distinct (map fst (fst (getIP_step fam allow ip (r, h))))"
  by (simp add: getIP_step_alt distinct_assign)

lemma getIP_loop_distinct:
  "distinct (map fst r) \<Longrightarrow> distinct (map fst (fst (getIP_loop fam allow ips (r, h))))"
proof (induction ips arbitrary: r h)
  case Nil
  then show ?case by simp
next
  case (Cons ip ips)
  obtain r' h' where st: "getIP_step fam allow ip (r, h) = (r', h')"
    by (cases "getIP_step fam allow ip (r, h)")
  with getIP_step_distinct [OF Cons.prems, of fam allow ip h] have "distinct (map fst r')"
    by simp
  from Cons.IH [OF this] st show ?case by simp
qed

lemma classified_not_proto: "isLinkLocalAddress a f \<Longrightarrow> f \<noteq> ''__proto__''"
  by (auto simp: isLinkLocalAddress_def split: if_splits)

lemma getIP_step_flag:
  "(map_of (snd (getIP_step fam allow ip (r, h))) f = Some True) =
     (map_of h f = Some True \<or> (family_matches fam ip \<and> family ip = f
                        \<and> isLinkLocalAddress (address ip) (family ip)))"
  using classified_not_proto [of "address ip" "family ip"]
  by (auto simp: getIP_step_alt map_of_assign)

lemma getIP_loop_flag:
  "(map_of (snd (getIP_loop fam allow ips (r, h))) f = Some True) =
     (map_of h f = Some True
      \<or> (\<exists>ip \<in> set ips. family_matches fam ip \<and> family ip = f
                        \<and> isLinkLocalAddress (address ip) (family ip)))"
proof (induction ips arbitrary: r h)
  case Nil
  show ?case by simp
next
  case (Cons ip ips)
  obtain r' h' where st: "getIP_step fam allow ip (r, h) = (r', h')"
    by (cases "getIP_step fam allow ip (r, h)")
  have "(map_of h' f = Some True) =
          (map_of h f = Some True \<or> (family_matches fam ip \<and> family ip = f
                             \<and> isLinkLocalAddress (address ip) (family ip)))"
    using getIP_step_flag [of fam allow ip r h f] st by simp
  then show ?case
    using Cons.IH [of r' h'] st by auto
qed

lemma none_classified_update:
  "none_classified_link_local r \<Longrightarrow> \<not> isLinkLocalAddress a f
     \<Longrightarrow> none_classified_link_local (assign f a r)"
  using set_assign_subset [of f a r]
  by (auto simp: none_classified_link_local_def filter_empty_conv)

lemma getIP_step_none_classified:
  "none_classified_link_local r
     \<Longrightarrow> none_classified_link_local (fst (getIP_step fam False ip (r, h)))"
  by (simp add: getIP_step_alt none_classified_update)

lemma getIP_loop_none_classified:
  "none_classified_link_local r
     \<Longrightarrow> none_classified_link_local (fst (getIP_loop fam False ips (r, h)))"
proof (induction ips arbitrary: r h)
  case Nil
  then show ?case by simp
next
  case (Cons ip ips)
  obtain r' h' where st: "getIP_step fam False ip (r, h) = (r', h')"
    by (cases "getIP_step fam False ip (r, h)")
  with getIP_step_none_classified [OF Cons.prems, of fam ip h]
  have "none_classified_link_local r'" by simp
  from Cons.IH [OF this] st show ?case by simp
qed

lemma none_classified_notin:
  "none_classified_link_local r \<Longrightarrow> isLinkLocalAddress a f \<Longrightarrow> (f, a) \<notin> set r"
  by (auto simp: none_classified_link_local_def filter_empty_conv)

subsection \<open>\<open>getIP\<close> in terms of its loop\<close>

text \<open>\<open>getIP\<close> throws exactly for an inherited interface name, and returns otherwise.\<close>

lemma getIP_throws: "inherited_name nis m \<Longrightarrow> getIP nis m allow = Inl TypeError"
  by (simp add: getIP_def inherited_name_def)

lemma getIP_returns:
  "\<not> inherited_name nis m \<Longrightarrow>
   getIP nis m allow =
     Inr (case getIP_loop (addressFamily (monitorData m)) allow (interface_addresses nis m)
                 ([], [(''IPv4'', False), (''IPv6'', False)]) of
            (r, h) \<Rightarrow> (if r \<noteq> [] then Some r else None, h))"
  by (auto simp: getIP_def inherited_name_def interface_addresses_def property_def
        split: option.splits prod.splits if_splits)

lemma getIP_Inr:
  assumes "getIP nis m allow = Inr (addr, flags)"
  shows "\<not> inherited_name nis m"
    and "address_entries addr =
           fst (getIP_loop (addressFamily (monitorData m)) allow (interface_addresses nis m)
                  ([], [(''IPv4'', False), (''IPv6'', False)]))"
    and "flags =
           snd (getIP_loop (addressFamily (monitorData m)) allow (interface_addresses nis m)
                  ([], [(''IPv4'', False), (''IPv6'', False)]))"
    and "addr \<noteq> Some []"
proof -
  show n: "\<not> inherited_name nis m"
    using assms getIP_throws [of nis m allow] by auto
  from getIP_returns [OF n, of allow] assms
  show "address_entries addr =
           fst (getIP_loop (addressFamily (monitorData m)) allow (interface_addresses nis m)
                  ([], [(''IPv4'', False), (''IPv6'', False)]))"
    and "flags =
           snd (getIP_loop (addressFamily (monitorData m)) allow (interface_addresses nis m)
                  ([], [(''IPv4'', False), (''IPv6'', False)]))"
    and "addr \<noteq> Some []"
    by (auto simp: address_entries_def split: prod.splits if_splits)
qed

lemma getIP_monitorData:
  assumes "monitorData m' = monitorData m"
  shows "getIP nis m' allow = getIP nis m allow"
  unfolding getIP_def assms by (rule refl)

subsection \<open>The text of the link-local addresses\<close>

lemma decimal_169: "decimal 169 = ''169''"
  by (simp add: decimal.simps digit_char_def)

lemma decimal_254: "decimal 254 = ''254''"
  by (simp add: decimal.simps digit_char_def)

lemma ipv4_link_local_text: "isLinkLocalAddress (ipv4_text 169 254 c d) ''IPv4''"
  by (simp add: isLinkLocalAddress_def startsWith_def ipv4_text_def decimal_169 decimal_254)

lemma fe80_bounds: "in_fe80_10 h \<Longrightarrow> 65152 \<le> h \<and> h < 65216"
  unfolding in_fe80_10_def by arith

lemma fe80_div16: "in_fe80_10 h \<Longrightarrow> 4072 \<le> h div 16 \<and> h div 16 < 4076"
  using fe80_bounds [of h] by (simp add: less_eq_div_iff_mult_less_eq div_less_iff_less_mult)

lemma fe80_div256: "in_fe80_10 h \<Longrightarrow> h div 16 div 16 = 254"
proof -
  assume "in_fe80_10 h"
  from fe80_div16 [OF this] have "254 \<le> h div 16 div 16 \<and> h div 16 div 16 < 255"
    by (simp add: less_eq_div_iff_mult_less_eq div_less_iff_less_mult)
  then show ?thesis by simp
qed

lemma fe80_third: "in_fe80_10 h \<Longrightarrow> 8 \<le> h div 16 mod 16 \<and> h div 16 mod 16 < 12"
proof -
  assume a: "in_fe80_10 h"
  have "h div 16 = 16 * (h div 16 div 16) + h div 16 mod 16" by simp
  then have "h div 16 = 4064 + h div 16 mod 16" by (simp add: fe80_div256 [OF a])
  with fe80_div16 [OF a] show ?thesis by linarith
qed

lemma hexadecimal_fe80_10:
  assumes "in_fe80_10 h"
  shows "hexadecimal h =
           [CHR ''f'', CHR ''e'', digit_char (h div 16 mod 16), digit_char (h mod 16)]"
proof -
  have d2: "h div 16 div 16 = 254" by (rule fe80_div256 [OF assms])
  have "hexadecimal (h div 16 div 16) = ''fe''"
    by (simp add: d2 hexadecimal.simps digit_char_def)
  moreover have "\<not> h div 16 < 16" using fe80_div16 [OF assms] by simp
  ultimately have "hexadecimal (h div 16) = ''fe'' @ [digit_char (h div 16 mod 16)]"
    by (subst hexadecimal.simps) simp
  moreover have "\<not> h < 16" using fe80_bounds [OF assms] by simp
  ultimately have
    "hexadecimal h = ''fe'' @ [digit_char (h div 16 mod 16)] @ [digit_char (h mod 16)]"
    by (subst hexadecimal.simps) simp
  then show ?thesis by simp
qed

lemma third_digit_fe80_10:
  assumes "in_fe80_10 h"
  shows "digit_char (h div 16 mod 16) \<in> {CHR ''8'', CHR ''9'', CHR ''a'', CHR ''b''}"
proof -
  from fe80_third [OF assms]
  have "h div 16 mod 16 = 8 \<or> h div 16 mod 16 = 9 \<or> h div 16 mod 16 = 10
          \<or> h div 16 mod 16 = 11"
    by linarith
  then show ?thesis by (auto simp: digit_char_def)
qed

lemma ipv6_link_local_text:
  assumes "in_fe80_10 h"
  shows "isLinkLocalAddress (ipv6_text h rest) ''IPv6''"
  using third_digit_fe80_10 [OF assms]
  by (auto simp: isLinkLocalAddress_def startsWith_def ipv6_text_def
        hexadecimal_fe80_10 [OF assms])


subsection \<open>Link-local exclusion\<close>

lemmas resolution_defs =
  getIP_def getIP_step_def assign_def isLinkLocalAddress_def startsWith_def flag_set_def
  property_def Object_prototype_def
  NetworkInterfaceMonitor_def ethernet_def ip4_def ip6_def

lemma link_local_entry_classified:
  "link_local_entry ip c d h rest \<Longrightarrow> isLinkLocalAddress (address ip) (family ip)"
  unfolding link_local_entry_def
  using ipv4_link_local_text [of c d] ipv6_link_local_text [of h rest] by auto

text \<open>
  C2, as the code has it. Whenever \<open>getIP\<close> returns from resolving without link-local
  addresses, none of the entries of the result set is classified link-local by
  \<open>isLinkLocalAddress\<close>; in particular the set holds no IPv4 entry whose text is that of
  an address of \<open>169.254.0.0/16\<close> and no IPv6 entry whose text is that of an address of
  \<open>fe80::/10\<close>. Whenever \<open>getIP\<close> returns, with link-local addresses allowed or not, and
  the array of the interface has an entry that passes the family filter of the monitor
  and is an address of \<open>169.254.0.0/16\<close> (family IPv4) or of \<open>fe80::/10\<close> (family
  IPv6), the flag of the family of that entry is true. (A monitor for IPv4 does not look
  at the IPv6 addresses of the interface, so its IPv6 flag stays false whatever they are.)
\<close>

theorem getIP_link_local_exclusion:
  "(getIP nis m False = Inr (addr, flags) \<longrightarrow>
      none_classified_link_local (address_entries addr)
      \<and> (''IPv4'', ipv4_text 169 254 c d) \<notin> set (address_entries addr)
      \<and> (in_fe80_10 h \<longrightarrow> (''IPv6'', ipv6_text h rest) \<notin> set (address_entries addr)))
   \<and> (getIP nis m allow = Inr (addr', flags')
        \<and> ip \<in> set (interface_addresses nis m)
        \<and> family_matches (addressFamily (monitorData m)) ip
        \<and> link_local_entry ip c' d' h' rest' \<longrightarrow>
      map_of flags' (family ip) = Some True)"
proof -
  have excl: "getIP nis m False = Inr (addr, flags) \<longrightarrow>
      none_classified_link_local (address_entries addr)
      \<and> (''IPv4'', ipv4_text 169 254 c d) \<notin> set (address_entries addr)
      \<and> (in_fe80_10 h \<longrightarrow> (''IPv6'', ipv6_text h rest) \<notin> set (address_entries addr))"
  proof
    assume g: "getIP nis m False = Inr (addr, flags)"
    have nll: "none_classified_link_local (address_entries addr)"
      unfolding getIP_Inr(2) [OF g]
      by (rule getIP_loop_none_classified) (simp add: none_classified_link_local_def)
    have v4: "(''IPv4'', ipv4_text 169 254 c d) \<notin> set (address_entries addr)"
      by (rule none_classified_notin [OF nll ipv4_link_local_text])
    have v6: "in_fe80_10 h \<longrightarrow> (''IPv6'', ipv6_text h rest) \<notin> set (address_entries addr)"
      using none_classified_notin [OF nll ipv6_link_local_text] by blast
    from nll v4 v6
    show "none_classified_link_local (address_entries addr)
      \<and> (''IPv4'', ipv4_text 169 254 c d) \<notin> set (address_entries addr)
      \<and> (in_fe80_10 h \<longrightarrow> (''IPv6'', ipv6_text h rest) \<notin> set (address_entries addr))"
      by blast
  qed
  have flag: "getIP nis m allow = Inr (addr', flags')
        \<and> ip \<in> set (interface_addresses nis m)
        \<and> family_matches (addressFamily (monitorData m)) ip
        \<and> link_local_entry ip c' d' h' rest' \<longrightarrow>
      map_of flags' (family ip) = Some True"
  proof (intro impI, elim conjE)
    assume g: "getIP nis m allow = Inr (addr', flags')"
      and i: "ip \<in> set (interface_addresses nis m)"
      and f: "family_matches (addressFamily (monitorData m)) ip"
      and l: "link_local_entry ip c' d' h' rest'"
    from link_local_entry_classified [OF l] i f
    show "map_of flags' (family ip) = Some True"
      unfolding getIP_Inr(3) [OF g] getIP_loop_flag by blast
  qed
  from excl flag show ?thesis by blast
qed

theorem getIP_link_local_exclusion_witness:
  "getIP (ethernet [ip6 ''fe80::1'', ip4 ''169.254.1.5'', ip4 ''10.0.0.1''])
      (NetworkInterfaceMonitor ''Ethernet'' ''Any'' True) False
     = Inr (Some [(''IPv4'', ''10.0.0.1'')], [(''IPv4'', True), (''IPv6'', True)])
   \<and> in_fe80_10 65152
   \<and> ipv6_text 65152 '':1'' = ''fe80::1''
   \<and> (''IPv6'', ''fe80::1'') \<notin> set (address_entries (Some [(''IPv4'', ''10.0.0.1'')]))
   \<and> link_local_entry (ip6 ''fe80::1'') 0 0 65152 '':1''
   \<and> map_of [(''IPv4'', True), (''IPv6'', True)] (family (ip6 ''fe80::1'')) = Some True"
proof -
  have t: "ipv6_text 65152 '':1'' = ''fe80::1''"
    by (simp add: ipv6_text_def hexadecimal.simps digit_char_def)
  have b: "in_fe80_10 65152"
    by (simp add: in_fe80_10_def)
  have r: "getIP (ethernet [ip6 ''fe80::1'', ip4 ''169.254.1.5'', ip4 ''10.0.0.1''])
      (NetworkInterfaceMonitor ''Ethernet'' ''Any'' True) False
     = Inr (Some [(''IPv4'', ''10.0.0.1'')], [(''IPv4'', True), (''IPv6'', True)])"
    by (simp add: resolution_defs)
  have l: "link_local_entry (ip6 ''fe80::1'') 0 0 65152 '':1''"
    by (simp add: link_local_entry_def ip6_def t b)
  have i: "ip6 ''fe80::1'' \<in> set (interface_addresses
             (ethernet [ip6 ''fe80::1'', ip4 ''169.254.1.5'', ip4 ''10.0.0.1''])
             (NetworkInterfaceMonitor ''Ethernet'' ''Any'' True))"
    by (simp add: interface_addresses_def ethernet_def NetworkInterfaceMonitor_def)
  have f: "family_matches
             (addressFamily (monitorData (NetworkInterfaceMonitor ''Ethernet'' ''Any'' True)))
             (ip6 ''fe80::1'')"
    by (simp add: family_matches_def NetworkInterfaceMonitor_def)
  note inst = getIP_link_local_exclusion
      [where nis = "ethernet [ip6 ''fe80::1'', ip4 ''169.254.1.5'', ip4 ''10.0.0.1'']"
         and m = "NetworkInterfaceMonitor ''Ethernet'' ''Any'' True"
         and addr = "Some [(''IPv4'', ''10.0.0.1'')]"
         and flags = "[(''IPv4'', True), (''IPv6'', True)]"
         and h = 65152 and rest = "'':1''" and allow = False
         and addr' = "Some [(''IPv4'', ''10.0.0.1'')]"
         and flags' = "[(''IPv4'', True), (''IPv6'', True)]"
         and ip = "ip6 ''fe80::1''" and c' = 0 and d' = 0 and h' = 65152 and rest' = "'':1''"]
  from inst r b have e: "(''IPv6'', ipv6_text 65152 '':1'') \<notin>
      set (address_entries (Some [(''IPv4'', ''10.0.0.1'')]))"
    by blast
  from inst r i f l
  have g: "map_of [(''IPv4'', True), (''IPv6'', True)] (family (ip6 ''fe80::1'')) = Some True"
    by blast
  from r b t e l g show ?thesis by (simp only: simp_thms)
qed

text \<open>
  A monitor for IPv4 on an interface that holds the link-local IPv6 address \<open>fe80::1\<close>:
  the IPv6 flag is false.
\<close>

theorem getIP_flag_counterexample:
  "in_fe80_10 65152
   \<and> ipv6_text 65152 '':1'' = ''fe80::1''
   \<and> interface_addresses (ethernet [ip6 ''fe80::1''])
        (NetworkInterfaceMonitor ''Ethernet'' ''IPv4'' True) = [ip6 ''fe80::1'']
   \<and> getIP (ethernet [ip6 ''fe80::1'']) (NetworkInterfaceMonitor ''Ethernet'' ''IPv4'' True) False
       = Inr (None, [(''IPv4'', False), (''IPv6'', False)])
   \<and> map_of [(''IPv4'', False), (''IPv6'', False)] ''IPv6'' \<noteq> Some True"
  by (simp add: resolution_defs interface_addresses_def in_fe80_10_def
        ipv6_text_def hexadecimal.simps digit_char_def)

subsection \<open>One address per family\<close>

text \<open>
  Whenever \<open>getIP\<close> returns, the result set has no family twice, so it maps a family to
  at most one address, and that address is the last included address of the family in the
  order of the array of the interface (nothing when the family has no included address);
  the set is never an empty object. A name that is neither the name of an interface of
  the host nor inherited from \<open>Object.prototype\<close> gives \<open>address = null\<close> with both
  link-local flags false.
\<close>

lemma getIP_result_shape:
  "(getIP nis m allow = Inr (addr, flags) \<longrightarrow>
      distinct (map fst (address_entries addr))
      \<and> map_of (address_entries addr) f =
           last_included (addressFamily (monitorData m)) allow (interface_addresses nis m) f
      \<and> addr \<noteq> Some [])
   \<and> (property nis (networkInterface (monitorData m)) = Undefined \<longrightarrow>
        getIP nis m allow = Inr (None, [(''IPv4'', False), (''IPv6'', False)]))"
proof -
  have shape: "getIP nis m allow = Inr (addr, flags) \<longrightarrow>
      distinct (map fst (address_entries addr))
      \<and> map_of (address_entries addr) f =
           last_included (addressFamily (monitorData m)) allow (interface_addresses nis m) f
      \<and> addr \<noteq> Some []"
  proof
    assume g: "getIP nis m allow = Inr (addr, flags)"
    have d: "distinct (map fst (address_entries addr))"
      unfolding getIP_Inr(2) [OF g] by (rule getIP_loop_distinct) simp
    have l: "map_of (address_entries addr) f =
        last_included (addressFamily (monitorData m)) allow (interface_addresses nis m) f"
      unfolding getIP_Inr(2) [OF g] getIP_loop_result by (simp split: option.splits)
    from d l getIP_Inr(4) [OF g]
    show "distinct (map fst (address_entries addr))
      \<and> map_of (address_entries addr) f =
           last_included (addressFamily (monitorData m)) allow (interface_addresses nis m) f
      \<and> addr \<noteq> Some []"
      by blast
  qed
  have u: "property nis (networkInterface (monitorData m)) = Undefined \<longrightarrow>
        getIP nis m allow = Inr (None, [(''IPv4'', False), (''IPv6'', False)])"
    by (simp add: getIP_def)
  from shape u show ?thesis by blast
qed

text \<open>
  C10 at a concrete input. The host has one interface, \<open>Ethernet\<close>. A monitor for the
  interface name \<open>Wi-Fi\<close>, which the host does not know, resolves \<open>null\<close> with both flags
  false. A monitor for the interface name \<open>constructor\<close>, which the host does not know
  either, does not: the guard of \<open>getIP\<close> reads the function \<open>Object.prototype.constructor\<close>
  and the loop over it throws a \<open>TypeError\<close>; so do \<open>start()\<close> and \<open>detectIPChange()\<close>,
  which call \<open>getIP\<close>.
\<close>

theorem getIP_inherited_name_throws:
  "ethernet [ip4 ''10.0.0.1''] ''Wi-Fi'' = None
   \<and> getIP (ethernet [ip4 ''10.0.0.1'']) (NetworkInterfaceMonitor ''Wi-Fi'' ''IPv4'' True) False
       = Inr (None, [(''IPv4'', False), (''IPv6'', False)])
   \<and> ethernet [ip4 ''10.0.0.1''] ''constructor'' = None
   \<and> getIP (ethernet [ip4 ''10.0.0.1''])
        (NetworkInterfaceMonitor ''constructor'' ''IPv4'' True) False
       = Inl TypeError
   \<and> fst (start (ethernet [ip4 ''10.0.0.1'']) (0, 4711)
             (NetworkInterfaceMonitor ''constructor'' ''IPv4'' True))
       = Inl TypeError
   \<and> fst (detectIPChange (ethernet [ip4 ''10.0.0.1''])
             (NetworkInterfaceMonitor ''constructor'' ''IPv4'' True))
       = Inl TypeError"
  by (simp add: resolution_defs start_def detectIPChange_def)

section \<open>Properties of the detection\<close>

lemma family_loop_eq:
  "family_loop cur new fams eventType =
     (if \<exists>f \<in> set fams. map_of cur f \<noteq> map_of new f then IPChanged
      else eventType)"
  by (induction fams arbitrary: eventType) auto

lemma callbacks_append: "callbacks (xs @ ys) = callbacks xs @ callbacks ys"
  by (induction xs rule: callbacks.induct) simp_all

text \<open>\<open>detectIPChange\<close> when the resolution throws.\<close>

lemma detectIPChange_throws:
  assumes "getIP nis m False = Inl e"
  shows "detectIPChange nis m = (Inl e, m, [])"
  by (simp add: detectIPChange_def assms)

text \<open>\<open>detectIPChange\<close> when the resolution finds an address.\<close>

lemma detectIPChange_Some:
  assumes "getIP nis m False = Inr (Some new, fl)"
  shows "detectIPChange nis m =
     (Inr (),
      (if checkTimer m \<noteq> None then m\<lparr>checkTimer := None, checkTimerCounter := 0\<rparr> else m)
        \<lparr>currentAddress := Some new\<rparr>,
      (if checkTimer m \<noteq> None then [ClearTimeout] else []) @
      (if (case currentAddress m of
             None \<Rightarrow> IPAssigned
           | Some cur \<Rightarrow> family_loop cur new (map fst new) Initial) \<noteq> Initial
          \<and> clientCallback m
       then [ClientCallback (Some new)
               (case currentAddress m of
                  None \<Rightarrow> IPAssigned
                | Some cur \<Rightarrow> family_loop cur new (map fst new) Initial)]
       else []))"
  by (simp add: detectIPChange_def assms Let_def)

text \<open>\<open>detectIPChange\<close> when the resolution finds none.\<close>

lemma detectIPChange_None:
  assumes "getIP nis m False = Inr (None, fl)"
  shows "detectIPChange nis m =
     (if currentAddress m \<noteq> None then
        (Inr (), m\<lparr>currentAddress := None\<rparr>,
         if clientCallback m then [ClientCallback None IPRemoved] else [])
      else if flag_set fl (addressFamily (monitorData m)) \<and> checkTimer m = None then
        (Inr (),
         m\<lparr>checkTimer := Some (Timeout (checkTimerInterval m)), currentAddress := None\<rparr>,
         [SetTimeout (checkTimerInterval m)])
      else (Inr (), m\<lparr>currentAddress := None\<rparr>, []))"
  by (simp add: detectIPChange_def assms Let_def)

lemma detectIPChange_cases:
  obtains (thrown) e where "getIP nis m False = Inl e"
        | (found) new fl where "getIP nis m False = Inr (Some new, fl)"
        | (nothing) fl where "getIP nis m False = Inr (None, fl)"
proof (cases "getIP nis m False")
  case (Inl e)
  then show ?thesis by (rule thrown)
next
  case (Inr r)
  obtain a fl where r: "r = (a, fl)" by (cases r)
  show ?thesis
  proof (cases a)
    case None
    with Inr r have "getIP nis m False = Inr (None, fl)" by simp
    then show ?thesis by (rule nothing)
  next
    case (Some new)
    with Inr r have "getIP nis m False = Inr (Some new, fl)" by simp
    then show ?thesis by (rule found)
  qed
qed

lemma detectIPChange_clientCallback:
  "clientCallback (fst (snd (detectIPChange nis m))) = clientCallback m"
  by (cases rule: detectIPChange_cases [of nis m])
     (simp_all add: detectIPChange_Some detectIPChange_None detectIPChange_throws)

lemma detectIPChange_silent:
  "\<not> clientCallback m \<Longrightarrow> callbacks (snd (snd (detectIPChange nis m))) = []"
  by (cases rule: detectIPChange_cases [of nis m])
     (simp_all add: detectIPChange_Some detectIPChange_None detectIPChange_throws)

lemmas monitor_defs =
  resolution_defs detectIPChange_def onNotifyIpInterfaceChange_def onCheckTimer_def
  start_def stop_def cancelNotification_def AddressFamilyApiValue_def
  DefaultCheckTimerInterval_def DefaultCheckTimerMaxTries_def Let_def
  ipv4_monitor_def

subsection \<open>The classification table\<close>

text \<open>
  C1, as the code has it. Let \<open>P\<close> be the stored address set and \<open>N\<close> the set
  \<open>detectIPChange\<close> resolves (link-local addresses excluded). If both are \<open>null\<close> the
  callback is not called. With a client callback registered: if \<open>P\<close> is \<open>null\<close> and
  \<open>N\<close> is not, the callback is called once with \<open>N\<close> and \<open>IPAssigned\<close> (2); if \<open>P\<close> is
  not \<open>null\<close> and \<open>N\<close> is, it is called once with \<open>null\<close> and \<open>IPRemoved\<close> (3); if
  neither is \<open>null\<close> and some family of \<open>N\<close> has an address other than the one \<open>P\<close> has
  for it (or \<open>P\<close> has none for it), it is called once with \<open>N\<close> and \<open>IPChanged\<close> (1).
  If neither is \<open>null\<close> and both give the same address to every family, the callback is
  not called. Without a client callback registered nothing is called in any case.
\<close>

theorem detectIPChange_classification:
  "(currentAddress m = None \<and> getIP nis m False = Inr (None, fl) \<longrightarrow>
      callbacks (snd (snd (detectIPChange nis m))) = [])
   \<and> (clientCallback m \<and> currentAddress m = None
        \<and> getIP nis m False = Inr (Some new, fl) \<longrightarrow>
      callbacks (snd (snd (detectIPChange nis m))) = [(Some new, IPAssigned)])
   \<and> (clientCallback m \<and> currentAddress m = Some cur
        \<and> getIP nis m False = Inr (None, fl) \<longrightarrow>
      callbacks (snd (snd (detectIPChange nis m))) = [(None, IPRemoved)])
   \<and> (clientCallback m \<and> currentAddress m = Some cur
        \<and> getIP nis m False = Inr (Some new, fl)
        \<and> f \<in> set (map fst new) \<and> map_of cur f \<noteq> map_of new f \<longrightarrow>
      callbacks (snd (snd (detectIPChange nis m))) = [(Some new, IPChanged)])
   \<and> (currentAddress m = Some cur \<and> getIP nis m False = Inr (Some new, fl)
        \<and> map_of cur = map_of new \<longrightarrow>
      callbacks (snd (snd (detectIPChange nis m))) = [])
   \<and> (\<not> clientCallback m \<longrightarrow> callbacks (snd (snd (detectIPChange nis m))) = [])
   \<and> EventType IPChanged = 1 \<and> EventType IPAssigned = 2 \<and> EventType IPRemoved = 3"
proof -
  have row1: "currentAddress m = None \<and> getIP nis m False = Inr (None, fl) \<longrightarrow>
      callbacks (snd (snd (detectIPChange nis m))) = []"
    by (auto simp: detectIPChange_None)
  have row2: "clientCallback m \<and> currentAddress m = None
        \<and> getIP nis m False = Inr (Some new, fl) \<longrightarrow>
      callbacks (snd (snd (detectIPChange nis m))) = [(Some new, IPAssigned)]"
    by (auto simp: detectIPChange_Some callbacks_append)
  have row3: "clientCallback m \<and> currentAddress m = Some cur
        \<and> getIP nis m False = Inr (None, fl) \<longrightarrow>
      callbacks (snd (snd (detectIPChange nis m))) = [(None, IPRemoved)]"
    by (auto simp: detectIPChange_None)
  have row4: "clientCallback m \<and> currentAddress m = Some cur
        \<and> getIP nis m False = Inr (Some new, fl)
        \<and> f \<in> set (map fst new) \<and> map_of cur f \<noteq> map_of new f \<longrightarrow>
      callbacks (snd (snd (detectIPChange nis m))) = [(Some new, IPChanged)]"
  proof (intro impI, elim conjE)
    assume a: "clientCallback m" "currentAddress m = Some cur"
      "getIP nis m False = Inr (Some new, fl)" "f \<in> set (map fst new)"
      "map_of cur f \<noteq> map_of new f"
    from a(4,5) have "family_loop cur new (map fst new) Initial = IPChanged"
      unfolding family_loop_eq by auto
    then show "callbacks (snd (snd (detectIPChange nis m))) = [(Some new, IPChanged)]"
      using a(1,2) by (simp add: detectIPChange_Some [OF a(3)] callbacks_append)
  qed
  have row5: "currentAddress m = Some cur \<and> getIP nis m False = Inr (Some new, fl)
        \<and> map_of cur = map_of new \<longrightarrow>
      callbacks (snd (snd (detectIPChange nis m))) = []"
  proof (intro impI, elim conjE)
    assume a: "currentAddress m = Some cur" "getIP nis m False = Inr (Some new, fl)"
      "map_of cur = map_of new"
    from a(3) have "family_loop cur new (map fst new) Initial = Initial"
      unfolding family_loop_eq by simp
    then show "callbacks (snd (snd (detectIPChange nis m))) = []"
      using a(1) by (simp add: detectIPChange_Some [OF a(2)] callbacks_append)
  qed
  have row6: "\<not> clientCallback m \<longrightarrow> callbacks (snd (snd (detectIPChange nis m))) = []"
    by (simp add: detectIPChange_silent)
  from row1 row2 row3 row4 row5 row6 show ?thesis by simp
qed

theorem detectIPChange_classification_witness:
  "(currentAddress ipv4_monitor = None
      \<and> getIP (ethernet []) ipv4_monitor False
          = Inr (None, [(''IPv4'', False), (''IPv6'', False)])
      \<and> callbacks (snd (snd (detectIPChange (ethernet []) ipv4_monitor))) = [])
   \<and> (clientCallback ipv4_monitor
      \<and> getIP (ethernet [ip4 ''192.168.0.10'']) ipv4_monitor False
          = Inr (Some [(''IPv4'', ''192.168.0.10'')], [(''IPv4'', False), (''IPv6'', False)])
      \<and> callbacks (snd (snd (detectIPChange (ethernet [ip4 ''192.168.0.10'']) ipv4_monitor)))
          = [(Some [(''IPv4'', ''192.168.0.10'')], IPAssigned)])
   \<and> (currentAddress (with_address [(''IPv4'', ''192.168.0.10'')] ipv4_monitor)
          = Some [(''IPv4'', ''192.168.0.10'')]
      \<and> callbacks (snd (snd (detectIPChange (ethernet [])
                           (with_address [(''IPv4'', ''192.168.0.10'')] ipv4_monitor))))
          = [(None, IPRemoved)])
   \<and> (getIP (ethernet [ip4 ''10.0.0.2'', ip6 ''2001:db8::1''])
              (with_address [(''IPv4'', ''10.0.0.1''), (''IPv6'', ''2001:db8::1'')] any_monitor)
              False
          = Inr (Some [(''IPv4'', ''10.0.0.2''), (''IPv6'', ''2001:db8::1'')],
                 [(''IPv4'', False), (''IPv6'', False)])
      \<and> map_of [(''IPv4'', ''10.0.0.1''), (''IPv6'', ''2001:db8::1'')] ''IPv4''
          \<noteq> map_of [(''IPv4'', ''10.0.0.2''), (''IPv6'', ''2001:db8::1'')] ''IPv4''
      \<and> callbacks (snd (snd (detectIPChange (ethernet [ip4 ''10.0.0.2'', ip6 ''2001:db8::1''])
            (with_address [(''IPv4'', ''10.0.0.1''), (''IPv6'', ''2001:db8::1'')] any_monitor))))
          = [(Some [(''IPv4'', ''10.0.0.2''), (''IPv6'', ''2001:db8::1'')], IPChanged)])
   \<and> (getIP (ethernet [ip4 ''10.0.0.1''])
              (with_address [(''IPv4'', ''10.0.0.1'')] ipv4_monitor) False
          = Inr (Some [(''IPv4'', ''10.0.0.1'')], [(''IPv4'', False), (''IPv6'', False)])
      \<and> callbacks (snd (snd (detectIPChange (ethernet [ip4 ''10.0.0.1''])
            (with_address [(''IPv4'', ''10.0.0.1'')] ipv4_monitor)))) = [])"
proof -
  have h1: "currentAddress ipv4_monitor = None
      \<and> getIP (ethernet []) ipv4_monitor False
          = Inr (None, [(''IPv4'', False), (''IPv6'', False)])"
    by (simp add: monitor_defs)
  have h2: "clientCallback ipv4_monitor \<and> currentAddress ipv4_monitor = None
      \<and> getIP (ethernet [ip4 ''192.168.0.10'']) ipv4_monitor False
          = Inr (Some [(''IPv4'', ''192.168.0.10'')], [(''IPv4'', False), (''IPv6'', False)])"
    by (simp add: monitor_defs)
  have h3: "clientCallback (with_address [(''IPv4'', ''192.168.0.10'')] ipv4_monitor)
      \<and> currentAddress (with_address [(''IPv4'', ''192.168.0.10'')] ipv4_monitor)
          = Some [(''IPv4'', ''192.168.0.10'')]
      \<and> getIP (ethernet []) (with_address [(''IPv4'', ''192.168.0.10'')] ipv4_monitor) False
          = Inr (None, [(''IPv4'', False), (''IPv6'', False)])"
    by (simp add: monitor_defs with_address_def)
  have h4: "clientCallback
        (with_address [(''IPv4'', ''10.0.0.1''), (''IPv6'', ''2001:db8::1'')] any_monitor)
      \<and> currentAddress
           (with_address [(''IPv4'', ''10.0.0.1''), (''IPv6'', ''2001:db8::1'')] any_monitor)
          = Some [(''IPv4'', ''10.0.0.1''), (''IPv6'', ''2001:db8::1'')]
      \<and> getIP (ethernet [ip4 ''10.0.0.2'', ip6 ''2001:db8::1''])
              (with_address [(''IPv4'', ''10.0.0.1''), (''IPv6'', ''2001:db8::1'')] any_monitor)
              False
          = Inr (Some [(''IPv4'', ''10.0.0.2''), (''IPv6'', ''2001:db8::1'')],
                 [(''IPv4'', False), (''IPv6'', False)])
      \<and> ''IPv4'' \<in> set (map fst [(''IPv4'', ''10.0.0.2''), (''IPv6'', ''2001:db8::1'')])
      \<and> map_of [(''IPv4'', ''10.0.0.1''), (''IPv6'', ''2001:db8::1'')] ''IPv4''
          \<noteq> map_of [(''IPv4'', ''10.0.0.2''), (''IPv6'', ''2001:db8::1'')] ''IPv4''"
    by (simp add: monitor_defs any_monitor_def with_address_def)
  have h5: "currentAddress (with_address [(''IPv4'', ''10.0.0.1'')] ipv4_monitor)
          = Some [(''IPv4'', ''10.0.0.1'')]
      \<and> getIP (ethernet [ip4 ''10.0.0.1''])
              (with_address [(''IPv4'', ''10.0.0.1'')] ipv4_monitor) False
          = Inr (Some [(''IPv4'', ''10.0.0.1'')], [(''IPv4'', False), (''IPv6'', False)])
      \<and> map_of [(''IPv4'', ''10.0.0.1'')] = map_of [(''IPv4'', ''10.0.0.1'')]"
    by (simp add: monitor_defs with_address_def)
  note t1 = detectIPChange_classification
      [where m = ipv4_monitor and nis = "ethernet []"
         and fl = "[(''IPv4'', False), (''IPv6'', False)]"]
  note t2 = detectIPChange_classification
      [where m = ipv4_monitor and nis = "ethernet [ip4 ''192.168.0.10'']"
         and new = "[(''IPv4'', ''192.168.0.10'')]"
         and fl = "[(''IPv4'', False), (''IPv6'', False)]"]
  note t3 = detectIPChange_classification
      [where m = "with_address [(''IPv4'', ''192.168.0.10'')] ipv4_monitor"
         and nis = "ethernet []" and cur = "[(''IPv4'', ''192.168.0.10'')]"
         and fl = "[(''IPv4'', False), (''IPv6'', False)]"]
  note t4 = detectIPChange_classification
      [where m = "with_address [(''IPv4'', ''10.0.0.1''), (''IPv6'', ''2001:db8::1'')] any_monitor"
         and nis = "ethernet [ip4 ''10.0.0.2'', ip6 ''2001:db8::1'']"
         and cur = "[(''IPv4'', ''10.0.0.1''), (''IPv6'', ''2001:db8::1'')]"
         and new = "[(''IPv4'', ''10.0.0.2''), (''IPv6'', ''2001:db8::1'')]"
         and f = "''IPv4''" and fl = "[(''IPv4'', False), (''IPv6'', False)]"]
  note t5 = detectIPChange_classification
      [where m = "with_address [(''IPv4'', ''10.0.0.1'')] ipv4_monitor"
         and nis = "ethernet [ip4 ''10.0.0.1'']"
         and cur = "[(''IPv4'', ''10.0.0.1'')]" and new = "[(''IPv4'', ''10.0.0.1'')]"
         and fl = "[(''IPv4'', False), (''IPv6'', False)]"]
  from h1 t1 have c1: "callbacks (snd (snd (detectIPChange (ethernet []) ipv4_monitor))) = []"
    by blast
  from h2 t2 have c2:
    "callbacks (snd (snd (detectIPChange (ethernet [ip4 ''192.168.0.10'']) ipv4_monitor)))
       = [(Some [(''IPv4'', ''192.168.0.10'')], IPAssigned)]"
    by blast
  from h3 t3 have c3:
    "callbacks (snd (snd (detectIPChange (ethernet [])
                       (with_address [(''IPv4'', ''192.168.0.10'')] ipv4_monitor))))
       = [(None, IPRemoved)]"
    by blast
  from h4 t4 have c4:
    "callbacks (snd (snd (detectIPChange (ethernet [ip4 ''10.0.0.2'', ip6 ''2001:db8::1''])
            (with_address [(''IPv4'', ''10.0.0.1''), (''IPv6'', ''2001:db8::1'')] any_monitor))))
       = [(Some [(''IPv4'', ''10.0.0.2''), (''IPv6'', ''2001:db8::1'')], IPChanged)]"
    by blast
  from h5 t5 have c5:
    "callbacks (snd (snd (detectIPChange (ethernet [ip4 ''10.0.0.1''])
            (with_address [(''IPv4'', ''10.0.0.1'')] ipv4_monitor)))) = []"
    by blast
  from h1 h2 h3 h4 h5 c1 c2 c3 c4 c5 show ?thesis by blast
qed

text \<open>
  Two inputs at which the table of C1 does not hold as it is written. A monitor without
  a client callback (one that was stopped, say) whose interface gets an address calls
  nothing. A monitor for both families that holds an IPv4 and an IPv6 address, and whose
  interface keeps the IPv6 address and loses the IPv4 one, calls nothing either: the
  IPv4 address differs between the two sets, yet no \<open>IPChanged\<close> is sent.
\<close>

theorem detectIPChange_classification_counterexample:
  "(currentAddress (NetworkInterfaceMonitor ''Ethernet'' ''IPv4'' False) = None
      \<and> getIP (ethernet [ip4 ''192.168.0.10''])
                (NetworkInterfaceMonitor ''Ethernet'' ''IPv4'' False) False
          = Inr (Some [(''IPv4'', ''192.168.0.10'')], [(''IPv4'', False), (''IPv6'', False)])
      \<and> callbacks (snd (snd (detectIPChange (ethernet [ip4 ''192.168.0.10''])
                           (NetworkInterfaceMonitor ''Ethernet'' ''IPv4'' False)))) = [])
   \<and> (clientCallback any_monitor
      \<and> currentAddress
           (with_address [(''IPv4'', ''10.0.0.1''), (''IPv6'', ''2001:db8::1'')] any_monitor)
          = Some [(''IPv4'', ''10.0.0.1''), (''IPv6'', ''2001:db8::1'')]
      \<and> getIP (ethernet [ip6 ''2001:db8::1''])
              (with_address [(''IPv4'', ''10.0.0.1''), (''IPv6'', ''2001:db8::1'')] any_monitor)
              False
          = Inr (Some [(''IPv6'', ''2001:db8::1'')], [(''IPv4'', False), (''IPv6'', False)])
      \<and> map_of [(''IPv4'', ''10.0.0.1''), (''IPv6'', ''2001:db8::1'')] ''IPv4''
          \<noteq> map_of [(''IPv6'', ''2001:db8::1'')] ''IPv4''
      \<and> callbacks (snd (snd (detectIPChange (ethernet [ip6 ''2001:db8::1''])
            (with_address [(''IPv4'', ''10.0.0.1''), (''IPv6'', ''2001:db8::1'')] any_monitor))))
          = [])"
  by (simp add: monitor_defs any_monitor_def with_address_def)

subsection \<open>Losing one family of two\<close>

text \<open>
  C4 at a concrete run. A monitor for both families is started on an interface that holds
  an IPv4 and an IPv6 address; then the IPv4 address disappears, the IPv6 address stays,
  and the native notification arrives. The only calls made are those of \<open>start()\<close>: the
  notification stores the new set and calls the client with nothing, neither
  \<open>IPChanged\<close> nor \<open>IPRemoved\<close>. In the opposite run, where the monitor is started with
  the IPv6 address alone and the IPv4 address appears, the same loop sends \<open>IPChanged\<close>.
\<close>

theorem partial_family_loss_is_silent:
  "snd (run [CallStart (ethernet [ip4 ''10.0.0.1'', ip6 ''2001:db8::1'']) (0, 1),
             Notification (ethernet [ip6 ''2001:db8::1''])] any_monitor)
     = [ClientCallback (Some [(''IPv4'', ''10.0.0.1''), (''IPv6'', ''2001:db8::1'')]) Initial,
        NotifyIpInterfaceChange (Own 0)]
   \<and> currentAddress
        (fst (run [CallStart (ethernet [ip4 ''10.0.0.1'', ip6 ''2001:db8::1'']) (0, 1),
                   Notification (ethernet [ip6 ''2001:db8::1''])] any_monitor))
     = Some [(''IPv6'', ''2001:db8::1'')]
   \<and> snd (run [CallStart (ethernet [ip6 ''2001:db8::1'']) (0, 1),
               Notification (ethernet [ip4 ''10.0.0.1'', ip6 ''2001:db8::1''])] any_monitor)
     = [ClientCallback (Some [(''IPv6'', ''2001:db8::1'')]) Initial,
        NotifyIpInterfaceChange (Own 0),
        ClientCallback (Some [(''IPv4'', ''10.0.0.1''), (''IPv6'', ''2001:db8::1'')]) IPChanged]"
  by (simp add: monitor_defs any_monitor_def)

subsection \<open>Cancelling the retry timer\<close>

text \<open>
  C7. When \<open>detectIPChange\<close> resolves an address set that is not \<open>null\<close> while a retry
  timer is pending, it calls \<open>clearTimeout\<close>, and on return no timer is pending and the
  attempt counter is zero.
\<close>

theorem detectIPChange_cancels_timer:
  "getIP nis m False = Inr (Some new, fl) \<and> checkTimer m \<noteq> None \<longrightarrow>
     fst (detectIPChange nis m) = Inr ()
     \<and> checkTimer (fst (snd (detectIPChange nis m))) = None
     \<and> checkTimerCounter (fst (snd (detectIPChange nis m))) = 0
     \<and> ClearTimeout \<in> set (snd (snd (detectIPChange nis m)))"
  by (auto simp: detectIPChange_Some)

theorem detectIPChange_cancels_timer_witness:
  "checkTimer (fst (snd (onNotifyIpInterfaceChange (ethernet [ip4 ''169.254.1.5''])
                           ipv4_monitor)))
     = Some (Timeout 500)
   \<and> getIP (ethernet [ip4 ''192.168.0.10''])
        (fst (snd (onNotifyIpInterfaceChange (ethernet [ip4 ''169.254.1.5'']) ipv4_monitor)))
        False
     = Inr (Some [(''IPv4'', ''192.168.0.10'')], [(''IPv4'', False), (''IPv6'', False)])
   \<and> checkTimer (fst (snd (detectIPChange (ethernet [ip4 ''192.168.0.10''])
        (fst (snd (onNotifyIpInterfaceChange (ethernet [ip4 ''169.254.1.5''])
                     ipv4_monitor))))))
     = None
   \<and> checkTimerCounter (fst (snd (detectIPChange (ethernet [ip4 ''192.168.0.10''])
        (fst (snd (onNotifyIpInterfaceChange (ethernet [ip4 ''169.254.1.5''])
                     ipv4_monitor))))))
     = 0
   \<and> ClearTimeout \<in> set (snd (snd (detectIPChange (ethernet [ip4 ''192.168.0.10''])
        (fst (snd (onNotifyIpInterfaceChange (ethernet [ip4 ''169.254.1.5''])
                     ipv4_monitor))))))"
proof -
  have h: "checkTimer (fst (snd (onNotifyIpInterfaceChange (ethernet [ip4 ''169.254.1.5''])
                           ipv4_monitor)))
           = Some (Timeout 500)
     \<and> getIP (ethernet [ip4 ''192.168.0.10''])
        (fst (snd (onNotifyIpInterfaceChange (ethernet [ip4 ''169.254.1.5'']) ipv4_monitor)))
        False
       = Inr (Some [(''IPv4'', ''192.168.0.10'')], [(''IPv4'', False), (''IPv6'', False)])"
    by (simp add: monitor_defs)
  with detectIPChange_cancels_timer
      [where nis = "ethernet [ip4 ''192.168.0.10'']"
         and m = "fst (snd (onNotifyIpInterfaceChange (ethernet [ip4 ''169.254.1.5''])
                              ipv4_monitor))"
         and new = "[(''IPv4'', ''192.168.0.10'')]"
         and fl = "[(''IPv4'', False), (''IPv6'', False)]"]
  show ?thesis by simp
qed

section \<open>Properties of starting and stopping\<close>

lemma start_running:
  "handle (monitorData m) \<noteq> None \<Longrightarrow> start nis notify m = (Inr True, m, [])"
  by (simp add: start_def)

lemma start_throws:
  "handle (monitorData m) = None \<Longrightarrow> getIP nis m True = Inl e \<Longrightarrow>
   start nis notify m = (Inl e, m, [])"
  by (simp add: start_def)

lemma start_returns:
  "handle (monitorData m) = None \<Longrightarrow> getIP nis m True = Inr (a, fl) \<Longrightarrow>
   start nis notify m =
     (Inr (fst notify = 0),
      m\<lparr>currentAddress := a,
        monitorData := (monitorData m)\<lparr>handle := Some (snd notify)\<rparr>\<rparr>,
      (if clientCallback m then [ClientCallback a Initial] else [])
      @ [NotifyIpInterfaceChange (AddressFamilyApiValue (addressFamily (monitorData m)))])"
  by (simp add: start_def Let_def)

lemma getIP_cases:
  obtains (thrown) "inherited_name nis m" "getIP nis m allow = Inl TypeError"
        | (returned) a fl where "\<not> inherited_name nis m" "getIP nis m allow = Inr (a, fl)"
proof (cases "inherited_name nis m")
  case True
  from True getIP_throws [OF True, of allow] show ?thesis by (rule thrown)
next
  case False
  from getIP_returns [OF False, of allow] obtain a fl
    where "getIP nis m allow = Inr (a, fl)"
    by (cases "getIP_loop (addressFamily (monitorData m)) allow (interface_addresses nis m)
                 ([], [(''IPv4'', False), (''IPv6'', False)])") simp
  with False show ?thesis by (rule returned)
qed

lemma stop_inert:
  "handle (monitorData m) = None \<Longrightarrow> stop cancelled m = (True, m\<lparr>clientCallback := False\<rparr>, [])"
  by (simp add: stop_def cancelNotification_def Let_def)

lemma stop_running:
  "handle (monitorData m) = Some p \<Longrightarrow>
   stop cancelled m =
     (cancelled = 0,
      (if cancelled = 0
       then m\<lparr>clientCallback := False, monitorData := (monitorData m)\<lparr>handle := None\<rparr>\<rparr>
       else m\<lparr>clientCallback := False\<rparr>),
      [CancelMibChangeNotify2 p])"
  by (simp add: stop_def cancelNotification_def Let_def)

lemma stop_clientCallback: "\<not> clientCallback (fst (snd (stop cancelled m)))"
  by (cases "handle (monitorData m)") (simp_all add: stop_inert stop_running)

lemma stop_silent: "callbacks (snd (snd (stop cancelled m))) = []"
  by (cases "handle (monitorData m)") (simp_all add: stop_inert stop_running)

lemma start_silent:
  assumes "\<not> clientCallback m"
  shows "callbacks (snd (snd (start nis notify m))) = []
   \<and> \<not> clientCallback (fst (snd (start nis notify m)))"
proof (cases "handle (monitorData m)")
  case None
  show ?thesis
  proof (cases rule: getIP_cases [of nis m True])
    case thrown
    with None assms show ?thesis by (simp add: start_throws)
  next
    case (returned a fl)
    with None assms show ?thesis by (simp add: start_returns)
  qed
next
  case (Some p)
  with assms show ?thesis by (simp add: start_running)
qed

lemma onCheckTimer_silent:
  "\<not> clientCallback m \<Longrightarrow>
   callbacks (snd (snd (onCheckTimer nis m))) = []
   \<and> \<not> clientCallback (fst (snd (onCheckTimer nis m)))"
  by (simp add: onCheckTimer_def Let_def detectIPChange_silent detectIPChange_clientCallback)

lemma trigger_step_silent:
  "\<not> clientCallback m \<Longrightarrow>
   callbacks (snd (trigger_step t m)) = [] \<and> \<not> clientCallback (fst (trigger_step t m))"
proof (cases t)
  case (CallStart nis notify)
  then show "\<not> clientCallback m \<Longrightarrow> ?thesis" by (simp add: start_silent)
next
  case (CallStop cancelled)
  then show ?thesis by (simp add: stop_silent stop_clientCallback)
next
  case (Notification nis)
  then show "\<not> clientCallback m \<Longrightarrow> ?thesis"
    by (simp add: onNotifyIpInterfaceChange_def detectIPChange_silent
          detectIPChange_clientCallback)
next
  case (TimerExpired nis)
  then show "\<not> clientCallback m \<Longrightarrow> ?thesis"
    by (simp add: onCheckTimer_silent split: option.splits)
qed

lemma run_silent: "\<not> clientCallback m \<Longrightarrow> callbacks (snd (run ts m)) = []"
proof (induction ts arbitrary: m)
  case Nil
  show ?case by simp
next
  case (Cons t ts)
  obtain m1 e1 where st: "trigger_step t m = (m1, e1)" by (cases "trigger_step t m")
  from trigger_step_silent [OF Cons.prems, of t] st
  have s: "callbacks e1 = []" "\<not> clientCallback m1" by simp_all
  obtain m2 e2 where r: "run ts m1 = (m2, e2)" by (cases "run ts m1")
  from Cons.IH [OF s(2)] r have "callbacks e2 = []" by simp
  with s(1) st r show ?case by (simp add: callbacks_append)
qed

subsection \<open>A failed subscription\<close>

text \<open>
  C3 at a concrete run. \<open>start()\<close> is called on an inert monitor and the native
  subscription fails (it answers 87 and leaves the buffer as it was). \<open>start()\<close> returns
  false, but the buffer it allocated before the call stays in \<open>monitorData.handle\<close>. A
  second \<open>start()\<close>, at which the native layer would succeed, finds the handle set,
  returns true and makes no call at all; and \<open>stop()\<close> then asks the native layer to
  cancel a subscription that was never made.
\<close>

theorem failed_start_keeps_handle:
  "handle (monitorData ipv4_monitor) = None
   \<and> start (ethernet [ip4 ''10.0.0.1'']) (87, 0) ipv4_monitor
       = (Inr False,
          ipv4_monitor\<lparr>currentAddress := Some [(''IPv4'', ''10.0.0.1'')],
            monitorData := (monitorData ipv4_monitor)\<lparr>handle := Some 0\<rparr>\<rparr>,
          [ClientCallback (Some [(''IPv4'', ''10.0.0.1'')]) Initial,
           NotifyIpInterfaceChange (Own 2)])
   \<and> start (ethernet [ip4 ''10.0.0.1'']) (0, 4711)
        (fst (snd (start (ethernet [ip4 ''10.0.0.1'']) (87, 0) ipv4_monitor)))
       = (Inr True, fst (snd (start (ethernet [ip4 ''10.0.0.1'']) (87, 0) ipv4_monitor)), [])
   \<and> snd (snd (stop 87 (fst (snd (start (ethernet [ip4 ''10.0.0.1'']) (87, 0) ipv4_monitor)))))
       = [CancelMibChangeNotify2 0]"
  by (simp add: monitor_defs)

subsection \<open>Idempotence\<close>

text \<open>
  C5, as the code has it. Take a monitor with no handle stored, whose interface name is
  not one inherited from \<open>Object.prototype\<close>. If the native subscription succeeds, two
  calls of \<open>start()\<close> in a row both return true; the second one changes nothing and makes
  no call, so the two together request exactly one native subscription. If the native
  subscription fails, the first \<open>start()\<close> returns false. (On a monitor with a handle
  stored, \<open>start()\<close> returns true, changes nothing and makes no call.) Take any monitor.
  If the native cancellation succeeds, or there is no handle to cancel, two calls of
  \<open>stop()\<close> in a row both return true, and the second one changes nothing and makes no
  call. If there is a handle and the native cancellation fails, \<open>stop()\<close> returns false
  and the handle stays. On a monitor with no handle stored \<open>stop()\<close> returns true and
  makes no call; it is not without effect, for it clears the client callback.
\<close>

theorem start_stop_idempotent:
  "(handle (monitorData m) = None \<and> \<not> inherited_name nis m \<and> fst notify = 0 \<longrightarrow>
      (case start nis notify m of (r1, m1, e1) \<Rightarrow>
         (case start nis' notify' m1 of (r2, m2, e2) \<Rightarrow>
            r1 = Inr True \<and> r2 = Inr True \<and> m2 = m1 \<and> e2 = []
            \<and> subscriptions (e1 @ e2) = 1)))
   \<and> (handle (monitorData m) = None \<and> \<not> inherited_name nis m \<and> fst notify \<noteq> 0 \<longrightarrow>
        fst (start nis notify m) = Inr False)
   \<and> (handle (monitorData m) \<noteq> None \<longrightarrow> start nis notify m = (Inr True, m, []))
   \<and> (handle (monitorData m) = None \<or> cancelled = 0 \<longrightarrow>
      (case stop cancelled m of (r1, m1, e1) \<Rightarrow>
         (case stop cancelled' m1 of (r2, m2, e2) \<Rightarrow>
            r1 \<and> r2 \<and> m2 = m1 \<and> e2 = [] \<and> handle (monitorData m1) = None)))
   \<and> (handle (monitorData m) = Some p \<and> cancelled \<noteq> 0 \<longrightarrow>
        \<not> fst (stop cancelled m)
        \<and> handle (monitorData (fst (snd (stop cancelled m)))) = Some p)
   \<and> (handle (monitorData m) = None \<longrightarrow>
      stop cancelled m = (True, m\<lparr>clientCallback := False\<rparr>, []))"
proof -
  have s1: "handle (monitorData m) = None \<and> \<not> inherited_name nis m \<and> fst notify = 0 \<longrightarrow>
      (case start nis notify m of (r1, m1, e1) \<Rightarrow>
         (case start nis' notify' m1 of (r2, m2, e2) \<Rightarrow>
            r1 = Inr True \<and> r2 = Inr True \<and> m2 = m1 \<and> e2 = []
            \<and> subscriptions (e1 @ e2) = 1))"
    by (cases rule: getIP_cases [of nis m True])
       (simp_all add: start_returns start_running)
  have s2: "handle (monitorData m) = None \<and> \<not> inherited_name nis m \<and> fst notify \<noteq> 0 \<longrightarrow>
        fst (start nis notify m) = Inr False"
    by (cases rule: getIP_cases [of nis m True]) (simp_all add: start_returns)
  have s3: "handle (monitorData m) \<noteq> None \<longrightarrow> start nis notify m = (Inr True, m, [])"
    by (simp add: start_running)
  have s4: "handle (monitorData m) = None \<or> cancelled = 0 \<longrightarrow>
      (case stop cancelled m of (r1, m1, e1) \<Rightarrow>
         (case stop cancelled' m1 of (r2, m2, e2) \<Rightarrow>
            r1 \<and> r2 \<and> m2 = m1 \<and> e2 = [] \<and> handle (monitorData m1) = None))"
    by (cases "handle (monitorData m)") (auto simp: stop_inert stop_running)
  have s5: "handle (monitorData m) = Some p \<and> cancelled \<noteq> 0 \<longrightarrow>
        \<not> fst (stop cancelled m)
        \<and> handle (monitorData (fst (snd (stop cancelled m)))) = Some p"
    by (simp add: stop_running)
  have s6: "handle (monitorData m) = None \<longrightarrow>
      stop cancelled m = (True, m\<lparr>clientCallback := False\<rparr>, [])"
    by (simp add: stop_inert)
  from s1 s2 s3 s4 s5 s6 show ?thesis by blast
qed

theorem start_stop_idempotent_witness:
  "handle (monitorData ipv4_monitor) = None
   \<and> \<not> inherited_name (ethernet [ip4 ''10.0.0.1'']) ipv4_monitor
   \<and> fst (start (ethernet [ip4 ''10.0.0.1'']) (0, 4711) ipv4_monitor) = Inr True
   \<and> start (ethernet []) (5, 6)
        (fst (snd (start (ethernet [ip4 ''10.0.0.1'']) (0, 4711) ipv4_monitor)))
       = (Inr True, fst (snd (start (ethernet [ip4 ''10.0.0.1'']) (0, 4711) ipv4_monitor)), [])
   \<and> subscriptions (snd (snd (start (ethernet [ip4 ''10.0.0.1'']) (0, 4711) ipv4_monitor))) = 1
   \<and> handle (monitorData
        (fst (snd (start (ethernet [ip4 ''10.0.0.1'']) (0, 4711) ipv4_monitor)))) = Some 4711
   \<and> fst (stop 0 (fst (snd (start (ethernet [ip4 ''10.0.0.1'']) (0, 4711) ipv4_monitor))))
   \<and> stop 5 (fst (snd (stop 0
        (fst (snd (start (ethernet [ip4 ''10.0.0.1'']) (0, 4711) ipv4_monitor))))))
       = (True,
          fst (snd (stop 0
            (fst (snd (start (ethernet [ip4 ''10.0.0.1'']) (0, 4711) ipv4_monitor))))),
          [])
   \<and> fst (start (ethernet [ip4 ''10.0.0.1'']) (87, 0) ipv4_monitor) = Inr False
   \<and> \<not> fst (stop 5 (fst (snd (start (ethernet [ip4 ''10.0.0.1'']) (0, 4711) ipv4_monitor))))
   \<and> handle (monitorData (fst (snd (stop 5
        (fst (snd (start (ethernet [ip4 ''10.0.0.1'']) (0, 4711) ipv4_monitor)))))))
       = Some 4711"
proof -
  have h: "handle (monitorData ipv4_monitor) = None
     \<and> \<not> inherited_name (ethernet [ip4 ''10.0.0.1'']) ipv4_monitor
     \<and> fst ((0::int), (4711::nat)) = 0"
    by (simp add: monitor_defs inherited_name_def)
  have g: "handle (monitorData
        (fst (snd (start (ethernet [ip4 ''10.0.0.1'']) (0, 4711) ipv4_monitor)))) = Some 4711"
    by (simp add: monitor_defs)
  have a: "case start (ethernet [ip4 ''10.0.0.1'']) (0, 4711) ipv4_monitor of (r1, m1, e1) \<Rightarrow>
         (case start (ethernet []) (5, 6) m1 of (r2, m2, e2) \<Rightarrow>
            r1 = Inr True \<and> r2 = Inr True \<and> m2 = m1 \<and> e2 = []
            \<and> subscriptions (e1 @ e2) = 1)"
    by (rule start_stop_idempotent
      [where m = ipv4_monitor and notify = "(0, 4711)" and nis = "ethernet [ip4 ''10.0.0.1'']"
         and nis' = "ethernet []" and notify' = "(5, 6)", THEN conjunct1, THEN mp, OF h])
  have b: "case stop 0 (fst (snd (start (ethernet [ip4 ''10.0.0.1'']) (0, 4711) ipv4_monitor)))
           of (r1, m1, e1) \<Rightarrow>
         (case stop 5 m1 of (r2, m2, e2) \<Rightarrow>
            r1 \<and> r2 \<and> m2 = m1 \<and> e2 = [] \<and> handle (monitorData m1) = None)"
    by (rule start_stop_idempotent
      [where m = "fst (snd (start (ethernet [ip4 ''10.0.0.1'']) (0, 4711) ipv4_monitor))"
         and cancelled = 0 and cancelled' = 5,
       THEN conjunct2, THEN conjunct2, THEN conjunct2, THEN conjunct1, THEN mp,
       OF disjI2 [OF refl]])
  have h2: "handle (monitorData ipv4_monitor) = None
     \<and> \<not> inherited_name (ethernet [ip4 ''10.0.0.1'']) ipv4_monitor
     \<and> fst ((87::int), (0::nat)) \<noteq> 0"
    using h by simp
  have c: "fst (start (ethernet [ip4 ''10.0.0.1'']) (87, 0) ipv4_monitor) = Inr False"
    by (rule start_stop_idempotent
      [where m = ipv4_monitor and notify = "(87, 0)" and nis = "ethernet [ip4 ''10.0.0.1'']",
       THEN conjunct2, THEN conjunct1, THEN mp, OF h2])
  have g5: "handle (monitorData
        (fst (snd (start (ethernet [ip4 ''10.0.0.1'']) (0, 4711) ipv4_monitor)))) = Some 4711
     \<and> (5::int) \<noteq> 0"
    using g by simp
  have d: "\<not> fst (stop 5 (fst (snd (start (ethernet [ip4 ''10.0.0.1'']) (0, 4711)
                                       ipv4_monitor))))
     \<and> handle (monitorData (fst (snd (stop 5
        (fst (snd (start (ethernet [ip4 ''10.0.0.1'']) (0, 4711) ipv4_monitor)))))))
       = Some 4711"
    by (rule start_stop_idempotent
      [where m = "fst (snd (start (ethernet [ip4 ''10.0.0.1'']) (0, 4711) ipv4_monitor))"
         and cancelled = 5 and p = 4711,
       THEN conjunct2, THEN conjunct2, THEN conjunct2, THEN conjunct2, THEN conjunct1,
       THEN mp, OF g5])
  from h g a b c d show ?thesis
    by (auto split: prod.splits)
qed

text \<open>
  Inputs at which C5 does not hold as it is written. When the native subscription fails,
  the first \<open>start()\<close> returns false. When the native cancellation fails, \<open>stop()\<close>
  returns false, the first time and the second. And \<open>stop()\<close> on a monitor that was
  never started is not without effect: it clears the client callback, so that a
  \<open>start()\<close> after it makes no \<open>Initial\<close> callback, where a \<open>start()\<close> without it makes
  one.
\<close>

theorem start_stop_idempotent_counterexample:
  "fst (start (ethernet [ip4 ''10.0.0.1'']) (87, 0) ipv4_monitor) = Inr False
   \<and> handle (monitorData
        (fst (snd (start (ethernet [ip4 ''10.0.0.1'']) (0, 4711) ipv4_monitor)))) = Some 4711
   \<and> fst (stop 5 (fst (snd (start (ethernet [ip4 ''10.0.0.1'']) (0, 4711) ipv4_monitor))))
       = False
   \<and> fst (stop 5 (fst (snd (stop 5
        (fst (snd (start (ethernet [ip4 ''10.0.0.1'']) (0, 4711) ipv4_monitor)))))))
       = False
   \<and> handle (monitorData ipv4_monitor) = None
   \<and> fst (stop 0 ipv4_monitor)
   \<and> clientCallback ipv4_monitor
   \<and> clientCallback (fst (snd (stop 0 ipv4_monitor))) = False
   \<and> callbacks (snd (snd (start (ethernet [ip4 ''10.0.0.1'']) (0, 4711) ipv4_monitor)))
       = [(Some [(''IPv4'', ''10.0.0.1'')], Initial)]
   \<and> callbacks (snd (snd (start (ethernet [ip4 ''10.0.0.1'']) (0, 4711)
                              (fst (snd (stop 0 ipv4_monitor))))))
       = []"
  by (simp add: monitor_defs)

subsection \<open>Silence after \<open>stop()\<close>\<close>

text \<open>
  C8. Once \<open>stop()\<close> has returned (with true or with false), whatever happens next to the
  monitor, in any number and order (native notifications, expiries of the retry timer,
  further calls of \<open>start()\<close> and \<open>stop()\<close>), the client callback is never called:
  \<open>stop()\<close> clears the reference, nothing sets it again, and every call of the callback
  is guarded by it.
\<close>

theorem no_callback_after_stop:
  "callbacks (snd (run ts (fst (snd (stop cancelled m))))) = []"
  by (rule run_silent [OF stop_clientCallback])

theorem no_callback_after_stop_witness:
  "fst (stop 0 (fst (snd (start (ethernet [ip4 ''169.254.1.5'']) (0, 4711) ipv4_monitor))))
   \<and> callbacks (snd (run [Notification (ethernet [ip4 ''192.168.0.10'']),
                          TimerExpired (ethernet [ip4 ''192.168.0.10'']),
                          Notification (ethernet [])]
        (fst (snd (stop 0
           (fst (snd (start (ethernet [ip4 ''169.254.1.5'']) (0, 4711) ipv4_monitor)))))))) = []"
proof -
  have "fst (stop 0
          (fst (snd (start (ethernet [ip4 ''169.254.1.5'']) (0, 4711) ipv4_monitor))))"
    by (simp add: monitor_defs)
  with no_callback_after_stop
      [where cancelled = 0
         and m = "fst (snd (start (ethernet [ip4 ''169.254.1.5'']) (0, 4711) ipv4_monitor))"
         and ts = "[Notification (ethernet [ip4 ''192.168.0.10'']),
                    TimerExpired (ethernet [ip4 ''192.168.0.10'']),
                    Notification (ethernet [])]"]
  show ?thesis by simp
qed

subsection \<open>The initial callback\<close>

text \<open>
  C9, as the code has it. Take a monitor with no handle stored
  (\<open>monitorData.handle\<close> is \<open>null\<close>), for any address family and any interface name but
  one inherited from \<open>Object.prototype\<close>. \<open>start()\<close> returns, and it has stored as
  \<open>currentAddress\<close> the address set resolved with link-local addresses allowed. If a
  client callback is registered it is called exactly once during \<open>start()\<close>, with that
  set and \<open>Initial\<close> (0); if none is registered (the monitor was built without one, or
  \<open>stop()\<close> has cleared it) \<open>start()\<close> calls nothing.
\<close>

theorem start_initial_callback:
  "handle (monitorData m) = None \<and> \<not> inherited_name nis m \<longrightarrow>
     fst (start nis notify m) = Inr (fst notify = 0)
     \<and> (\<exists>fl. getIP nis m True = Inr (currentAddress (fst (snd (start nis notify m))), fl))
     \<and> callbacks (snd (snd (start nis notify m))) =
         (if clientCallback m
          then [(currentAddress (fst (snd (start nis notify m))), Initial)] else [])
     \<and> EventType Initial = 0"
  by (cases rule: getIP_cases [of nis m True])
     (simp_all add: start_returns callbacks_append)

theorem start_initial_callback_witness:
  "handle (monitorData ipv4_monitor) = None
   \<and> \<not> inherited_name (ethernet [ip4 ''169.254.1.5'']) ipv4_monitor
   \<and> getIP (ethernet [ip4 ''169.254.1.5'']) ipv4_monitor True
       = Inr (Some [(''IPv4'', ''169.254.1.5'')], [(''IPv4'', True), (''IPv6'', False)])
   \<and> fst (start (ethernet [ip4 ''169.254.1.5'']) (0, 4711) ipv4_monitor) = Inr True
   \<and> currentAddress (fst (snd (start (ethernet [ip4 ''169.254.1.5'']) (0, 4711) ipv4_monitor)))
       = Some [(''IPv4'', ''169.254.1.5'')]
   \<and> callbacks (snd (snd (start (ethernet [ip4 ''169.254.1.5'']) (0, 4711) ipv4_monitor)))
       = [(Some [(''IPv4'', ''169.254.1.5'')], Initial)]"
proof -
  have h: "handle (monitorData ipv4_monitor) = None
     \<and> \<not> inherited_name (ethernet [ip4 ''169.254.1.5'']) ipv4_monitor"
    by (simp add: monitor_defs inherited_name_def)
  have c: "clientCallback ipv4_monitor"
    by (simp add: monitor_defs)
  have g: "getIP (ethernet [ip4 ''169.254.1.5'']) ipv4_monitor True
       = Inr (Some [(''IPv4'', ''169.254.1.5'')], [(''IPv4'', True), (''IPv6'', False)])"
    by (simp add: monitor_defs)
  from start_initial_callback
      [where m = ipv4_monitor and nis = "ethernet [ip4 ''169.254.1.5'']"
         and notify = "(0, 4711)", THEN mp, OF h]
  show ?thesis using h c g by auto
qed

text \<open>
  A monitor that was started and stopped has no handle stored again, and starting it
  once more calls nothing: \<open>stop()\<close> has cleared the callback.
\<close>

theorem start_initial_callback_counterexample:
  "fst (stop 0 (fst (snd (start (ethernet [ip4 ''10.0.0.1'']) (0, 4711) ipv4_monitor))))
   \<and> handle (monitorData
        (fst (snd (stop 0
           (fst (snd (start (ethernet [ip4 ''10.0.0.1'']) (0, 4711) ipv4_monitor)))))))
       = None
   \<and> fst (start (ethernet [ip4 ''10.0.0.1'']) (0, 4712)
        (fst (snd (stop 0
           (fst (snd (start (ethernet [ip4 ''10.0.0.1'']) (0, 4711) ipv4_monitor)))))))
       = Inr True
   \<and> callbacks (snd (snd (start (ethernet [ip4 ''10.0.0.1'']) (0, 4712)
        (fst (snd (stop 0
           (fst (snd (start (ethernet [ip4 ''10.0.0.1'']) (0, 4711) ipv4_monitor))))))))) = []"
  by (simp add: monitor_defs)

section \<open>The retry timer\<close>

lemma fire_timers_idle:
  "checkTimer m = None \<Longrightarrow> fire_timers fuel snapshots m = (0, [], m, [])"
  by (cases fuel) simp_all

text \<open>
  One expiry while the interface holds nothing but a link-local address of the monitored
  family: below the maximum the timer is armed again and the counter goes up by one; at
  the maximum the counter is reset and nothing is armed.
\<close>

lemma onCheckTimer_link_local:
  assumes "currentAddress m = None"
    and "getIP nis m False = Inr (None, fl)"
    and "flag_set fl (addressFamily (monitorData m))"
  shows "onCheckTimer nis m =
     (if checkTimerCounter m < checkTimerMaxTries m then
        (Inr (),
         m\<lparr>checkTimer := Some (Timeout (checkTimerInterval m)),
           checkTimerCounter := checkTimerCounter m + 1, currentAddress := None\<rparr>,
         [SetTimeout (checkTimerInterval m)])
      else (Inr (), m\<lparr>checkTimer := None, checkTimerCounter := 0\<rparr>, []))"
proof (cases "checkTimerCounter m < checkTimerMaxTries m")
  case True
  define m2 where "m2 = m\<lparr>checkTimer := None, checkTimerCounter := checkTimerCounter m + 1\<rparr>"
  have md: "monitorData m2 = monitorData m" by (simp add: m2_def)
  have g: "getIP nis m2 False = Inr (None, fl)"
    using assms(2) getIP_monitorData [OF md, of nis False] by simp
  have f: "flag_set fl (addressFamily (monitorData m2))"
    using assms(3) md by simp
  have "detectIPChange nis m2 =
          (Inr (),
           m2\<lparr>checkTimer := Some (Timeout (checkTimerInterval m2)), currentAddress := None\<rparr>,
           [SetTimeout (checkTimerInterval m2)])"
    using f assms(1) by (subst detectIPChange_None [OF g]) (simp add: m2_def)
  then show ?thesis
    using True by (simp add: onCheckTimer_def Let_def m2_def)
next
  case False
  then show ?thesis by (simp add: onCheckTimer_def Let_def)
qed

lemma fire_timers_link_local:
  assumes "\<forall>i. \<exists>fl. getIP (snapshots i) m False = Inr (None, fl)
             \<and> flag_set fl (addressFamily (monitorData m))"
    and "currentAddress m = None"
    and "checkTimer m = Some t"
    and "nat (checkTimerMaxTries m - checkTimerCounter m) < fuel"
  shows "fire_timers fuel snapshots m =
     (nat (checkTimerMaxTries m - checkTimerCounter m) + 1, [],
      m\<lparr>checkTimer := None, checkTimerCounter := 0\<rparr>,
      replicate (nat (checkTimerMaxTries m - checkTimerCounter m))
        (SetTimeout (checkTimerInterval m)))"
  using assms
proof (induction fuel arbitrary: m t snapshots)
  case 0
  then show ?case by simp
next
  case (Suc fuel)
  from Suc.prems(1) obtain fl where s0: "getIP (snapshots 0) m False = Inr (None, fl)"
    "flag_set fl (addressFamily (monitorData m))"
    by blast
  note step = onCheckTimer_link_local [OF Suc.prems(2) s0]
  show ?case
  proof (cases "checkTimerCounter m < checkTimerMaxTries m")
    case True
    define m1 where "m1 = m\<lparr>checkTimer := Some (Timeout (checkTimerInterval m)),
           checkTimerCounter := checkTimerCounter m + 1, currentAddress := None\<rparr>"
    have md: "monitorData m1 = monitorData m" by (simp add: m1_def)
    have p1: "\<forall>i. \<exists>fl. getIP (snapshots (Suc i)) m1 False = Inr (None, fl)
      \<and> flag_set fl (addressFamily (monitorData m1))"
      using Suc.prems(1) by (simp add: getIP_monitorData [OF md] md)
    have p2: "currentAddress m1 = None" by (simp add: m1_def)
    have p3: "checkTimer m1 = Some (Timeout (checkTimerInterval m))" by (simp add: m1_def)
    have p4: "nat (checkTimerMaxTries m1 - checkTimerCounter m1) < fuel"
      using Suc.prems(4) True by (simp add: m1_def)
    have n: "nat (checkTimerMaxTries m - checkTimerCounter m)
               = Suc (nat (checkTimerMaxTries m1 - checkTimerCounter m1))"
      using True by (simp add: m1_def)
    have e: "m1\<lparr>checkTimer := None, checkTimerCounter := 0\<rparr>
               = m\<lparr>checkTimer := None, checkTimerCounter := 0\<rparr>"
      using Suc.prems(2) by (simp add: m1_def)
    have i: "checkTimerInterval m1 = checkTimerInterval m" by (simp add: m1_def)
    from Suc.IH [of "\<lambda>i. snapshots (Suc i)" m1, OF p1 p2 p3 p4]
    have "fire_timers fuel (\<lambda>i. snapshots (Suc i)) m1 =
       (nat (checkTimerMaxTries m1 - checkTimerCounter m1) + 1, [],
        m\<lparr>checkTimer := None, checkTimerCounter := 0\<rparr>,
        replicate (nat (checkTimerMaxTries m1 - checkTimerCounter m1))
          (SetTimeout (checkTimerInterval m)))"
      by (simp only: e i)
    then show ?thesis
      using True step Suc.prems(3) by (simp add: n m1_def)
  next
    case False
    then have z: "nat (checkTimerMaxTries m - checkTimerCounter m) = 0" by simp
    have "fire_timers fuel (\<lambda>i. snapshots (Suc i)) (m\<lparr>checkTimer := None, checkTimerCounter := 0\<rparr>)
            = (0, [], m\<lparr>checkTimer := None, checkTimerCounter := 0\<rparr>, [])"
      by (rule fire_timers_idle) simp
    then show ?thesis
      using False step Suc.prems(3) by (simp add: z)
  qed
qed

lemma callbacks_SetTimeout: "callbacks (replicate n (SetTimeout d)) = []"
  by (induction n) simp_all

lemma notification_arms_timer:
  assumes "currentAddress m = None" and "checkTimer m = None"
    and "getIP nis m False = Inr (None, fl)"
    and "flag_set fl (addressFamily (monitorData m))"
  shows "onNotifyIpInterfaceChange nis m =
     (Inr (),
      m\<lparr>checkTimer := Some (Timeout (checkTimerInterval m)), currentAddress := None\<rparr>,
      [SetTimeout (checkTimerInterval m)])"
  using assms(1,2,4)
  by (simp add: onNotifyIpInterfaceChange_def detectIPChange_None [OF assms(3)])

text \<open>
  C6, as the code has it. The monitor is idle (no address stored, no timer pending) and
  from now on every resolution finds no address and a link-local address of the monitored
  family. The native notification arms the retry timer and calls nothing else. With
  \<open>n\<close> the maximum number of tries less the value of the attempt counter (zero if that
  is negative), the timer then expires exactly \<open>n + 1\<close> times: each of the first \<open>n\<close>
  expiries resolves again and arms the timer again, and the last one only resets the
  counter to zero. No expiry throws. After the last one no timer is pending, no address
  is stored, and the client callback was never called. With the counter at zero the timer
  thus expires once more than the maximum number of tries.
\<close>

theorem retry_timer_bounded:
  assumes "currentAddress m = None" and "checkTimer m = None"
    and "\<forall>i. \<exists>fl. getIP (snapshots i) m False = Inr (None, fl)
             \<and> flag_set fl (addressFamily (monitorData m))"
    and "nat (checkTimerMaxTries m - checkTimerCounter m) < fuel"
  shows "case onNotifyIpInterfaceChange (snapshots 0) m of (ended0, m0, effects0) \<Rightarrow>
           ended0 = Inr ()
           \<and> checkTimer m0 = Some (Timeout (checkTimerInterval m))
           \<and> effects0 = [SetTimeout (checkTimerInterval m)]
           \<and> (case fire_timers fuel (\<lambda>i. snapshots (Suc i)) m0 of
                (fired, errors, m1, effects1) \<Rightarrow>
                fired = nat (checkTimerMaxTries m - checkTimerCounter m) + 1
                \<and> errors = []
                \<and> checkTimer m1 = None \<and> checkTimerCounter m1 = 0
                \<and> currentAddress m1 = None
                \<and> effects1 = replicate (nat (checkTimerMaxTries m - checkTimerCounter m))
                               (SetTimeout (checkTimerInterval m))
                \<and> callbacks effects1 = [])"
proof -
  define m0 where
    "m0 = m\<lparr>checkTimer := Some (Timeout (checkTimerInterval m)), currentAddress := None\<rparr>"
  from assms(3) obtain fl where s0: "getIP (snapshots 0) m False = Inr (None, fl)"
    "flag_set fl (addressFamily (monitorData m))"
    by blast
  have arm: "onNotifyIpInterfaceChange (snapshots 0) m
               = (Inr (), m0, [SetTimeout (checkTimerInterval m)])"
    unfolding m0_def by (rule notification_arms_timer [OF assms(1,2) s0])
  have md: "monitorData m0 = monitorData m" by (simp add: m0_def)
  have p1: "\<forall>i. \<exists>fl. getIP (snapshots (Suc i)) m0 False = Inr (None, fl)
      \<and> flag_set fl (addressFamily (monitorData m0))"
    using assms(3) by (simp add: getIP_monitorData [OF md] md)
  have p2: "currentAddress m0 = None" by (simp add: m0_def)
  have p3: "checkTimer m0 = Some (Timeout (checkTimerInterval m))" by (simp add: m0_def)
  have p4: "nat (checkTimerMaxTries m0 - checkTimerCounter m0) < fuel"
    using assms(4) by (simp add: m0_def)
  have q: "checkTimerMaxTries m0 = checkTimerMaxTries m"
    "checkTimerCounter m0 = checkTimerCounter m" "checkTimerInterval m0 = checkTimerInterval m"
    by (simp_all add: m0_def)
  from fire_timers_link_local [of "\<lambda>i. snapshots (Suc i)" m0, OF p1 p2 p3 p4]
  have "fire_timers fuel (\<lambda>i. snapshots (Suc i)) m0 =
     (nat (checkTimerMaxTries m - checkTimerCounter m) + 1, [],
      m0\<lparr>checkTimer := None, checkTimerCounter := 0\<rparr>,
      replicate (nat (checkTimerMaxTries m - checkTimerCounter m))
        (SetTimeout (checkTimerInterval m)))"
    by (simp only: q)
  then show ?thesis
    using arm p3 p2 by (simp add: callbacks_SetTimeout)
qed

theorem retry_timer_bounded_witness:
  "checkTimerMaxTries (ipCheckTimerMaxTries 2 ipv4_monitor) = 2
   \<and> checkTimerCounter (ipCheckTimerMaxTries 2 ipv4_monitor) = 0
   \<and> getIP (ethernet [ip4 ''169.254.1.5'']) (ipCheckTimerMaxTries 2 ipv4_monitor) False
       = Inr (None, [(''IPv4'', True), (''IPv6'', False)])
   \<and> (case onNotifyIpInterfaceChange (ethernet [ip4 ''169.254.1.5''])
              (ipCheckTimerMaxTries 2 ipv4_monitor) of
        (ended0, m0, effects0) \<Rightarrow>
           ended0 = Inr ()
           \<and> checkTimer m0 = Some (Timeout 500)
           \<and> effects0 = [SetTimeout 500]
           \<and> (case fire_timers 5 (\<lambda>i. ethernet [ip4 ''169.254.1.5'']) m0 of
                (fired, errors, m1, effects1) \<Rightarrow>
                  fired = 3 \<and> errors = []
                  \<and> checkTimer m1 = None \<and> checkTimerCounter m1 = 0
                  \<and> currentAddress m1 = None
                  \<and> effects1 = [SetTimeout 500, SetTimeout 500]
                  \<and> callbacks effects1 = []))"
proof -
  have v: "checkTimerMaxTries (ipCheckTimerMaxTries 2 ipv4_monitor) = 2"
    "checkTimerCounter (ipCheckTimerMaxTries 2 ipv4_monitor) = 0"
    "checkTimerInterval (ipCheckTimerMaxTries 2 ipv4_monitor) = 500"
    "getIP (ethernet [ip4 ''169.254.1.5'']) (ipCheckTimerMaxTries 2 ipv4_monitor) False
       = Inr (None, [(''IPv4'', True), (''IPv6'', False)])"
    by (simp_all add: monitor_defs ipCheckTimerMaxTries_def)
  have fs: "flag_set [(''IPv4'', True), (''IPv6'', False)]
              (addressFamily (monitorData (ipCheckTimerMaxTries 2 ipv4_monitor)))"
    by (simp add: monitor_defs ipCheckTimerMaxTries_def)
  have h: "currentAddress (ipCheckTimerMaxTries 2 ipv4_monitor) = None"
    "checkTimer (ipCheckTimerMaxTries 2 ipv4_monitor) = None"
    "\<forall>i::nat. \<exists>fl. getIP (ethernet [ip4 ''169.254.1.5''])
                    (ipCheckTimerMaxTries 2 ipv4_monitor) False = Inr (None, fl)
       \<and> flag_set fl (addressFamily (monitorData (ipCheckTimerMaxTries 2 ipv4_monitor)))"
    "nat (checkTimerMaxTries (ipCheckTimerMaxTries 2 ipv4_monitor)
          - checkTimerCounter (ipCheckTimerMaxTries 2 ipv4_monitor)) < 5"
    using v(4) fs by (simp_all add: monitor_defs ipCheckTimerMaxTries_def)
  have r: "replicate (nat (2 - 0)) (SetTimeout 500) = [SetTimeout 500, SetTimeout 500]"
    "nat (2 - 0) + 1 = 3"
    by (simp_all add: eval_nat_numeral)
  from retry_timer_bounded
      [where m = "ipCheckTimerMaxTries 2 ipv4_monitor"
         and snapshots = "\<lambda>i. ethernet [ip4 ''169.254.1.5'']" and fuel = 5, OF h]
  show ?thesis
    by (simp only: v r simp_thms)
qed

text \<open>
  With a maximum of two tries the timer expires three times before the monitor gives up.
\<close>

theorem retry_timer_counterexample:
  "checkTimerMaxTries (ipCheckTimerMaxTries 2 ipv4_monitor) = 2
   \<and> getIP (ethernet [ip4 ''169.254.1.5'']) (ipCheckTimerMaxTries 2 ipv4_monitor) False
       = Inr (None, [(''IPv4'', True), (''IPv6'', False)])
   \<and> fst (fire_timers 5 (\<lambda>i. ethernet [ip4 ''169.254.1.5''])
            (fst (snd (onNotifyIpInterfaceChange (ethernet [ip4 ''169.254.1.5''])
                         (ipCheckTimerMaxTries 2 ipv4_monitor))))) = 3
   \<and> snd (run [Notification (ethernet [ip4 ''169.254.1.5'']),
               TimerExpired (ethernet [ip4 ''169.254.1.5'']),
               TimerExpired (ethernet [ip4 ''169.254.1.5''])]
            (ipCheckTimerMaxTries 2 ipv4_monitor))
       = [SetTimeout 500, SetTimeout 500, SetTimeout 500]"
  by (simp add: monitor_defs ipCheckTimerMaxTries_def eval_nat_numeral)


end
